theory Spec2Isabelle
  imports Main "HOL-Library.Word" "HOL-Library.Sublist"
begin

section \<open>The notification rule HTTP layer (http/notification_rule.go)\<close>

text \<open>
  The file is the HTTP handler of the notification rule resource and the client-side
  store adapter. Its collaborators (rule store, task service, label service, endpoint
  service) are Go interfaces: the model takes them as the fields of the handler, each a
  state transformer over a world \<open>'w\<close> that the handler never inspects. Package-level
  helpers that live in other files (identifier decoding, JSON decoding of the rule
  types, paging) are the fields of \<open>Ext\<close>. A Go result \<open>(v, err)\<close> is a sum:
  \<open>Inl err\<close> when \<open>err \<noteq> nil\<close>, \<open>Inr v\<close> otherwise; a result that is only an
  \<open>error\<close> is an \<open>error option\<close>. A nil-pointer dereference is the value
  \<open>Panicked\<close> (decoders) or \<open>Panic\<close> (handlers).
\<close>

subsection \<open>Types declared outside the file, as far as the file reads them\<close>

type_synonym ID = "64 word"
type_synonym Time = int
type_synonym Status = string
type_synonym Tag = "string \<times> string"

datatype Code = EInternal | ENotFound | EInvalid | EUnauthorized | EForbidden | EConflict

text \<open>
  Go's \<open>error\<close>: an \<open>*influxdb.Error\<close> with its Code, Msg, Op and wrapped Err, or an
  error of another package (encoding/json, io), which carries no code.
\<close>

datatype error =
    Error Code string string "error option"
  | GoError string

fun has_code :: "Code \<Rightarrow> error \<Rightarrow> bool" where
  "has_code c (Error c' msg op err) = (c' = c)"
| "has_code c (GoError msg) = False"

datatype ResourceType =
    NoResourceType
  | NotificationRuleResourceType
  | TelegrafsResourceType

datatype UserType = Member | Owner

record Label =
  label_ID :: ID
  label_Name :: string

record LabelMapping =
  lm_LabelID :: ID
  lm_ResourceID :: ID
  lm_ResourceType :: ResourceType

record Task =
  task_Status :: string
  task_LatestCompleted :: Time
  task_LatestScheduled :: Time
  task_LastRunStatus :: string
  task_LastRunError :: string

datatype NotificationEndpoint = NotificationEndpoint ID string

datatype PagingLinks = PagingLinks string string string

record FindOptions =
  fo_Limit :: int
  fo_Offset :: int
  fo_SortBy :: string
  fo_Descending :: bool

datatype Authorizer = Authorizer (GetUserID: ID)

text \<open>
  Modelled from the spec: \<open>influxdb.NotificationRule\<close> is an interface declared outside
  the file. The record holds what the file reads through the interface's getters (the
  rule's ID, its task's ID, its endpoint's ID), the rule's name for the rest of its
  definition, and the "private data" of the spec's data model: the endpoint-specific
  secret fields.
\<close>

record NotificationRule =
  GetID :: ID
  GetOrgID :: ID
  GetTaskID :: ID
  GetEndpointID :: ID
  GetName :: string
  PrivateData :: "string list"

text \<open>
  Modelled from the spec: \<open>ClearPrivateData\<close> is a method of the interface, declared
  outside the file; the spec says it clears the private/secret fields. The rule is
  held through a pointer, so after the call every later read of \<open>nr\<close> sees the cleared
  rule: the model returns it.
\<close>

definition ClearPrivateData :: "NotificationRule \<Rightarrow> NotificationRule" where
  "ClearPrivateData nr = nr\<lparr>PrivateData := []\<rparr>"

definition SetID :: "ID \<Rightarrow> NotificationRule \<Rightarrow> NotificationRule" where
  "SetID i nr = nr\<lparr>GetID := i\<rparr>"

record NotificationRuleCreate =
  nrc_NotificationRule :: NotificationRule
  nrc_Status :: Status

record NotificationRuleUpdate =
  upd_Name :: "string option"
  upd_Description :: "string option"
  upd_Status :: "Status option"

record UserResourceMappingFilter =
  urm_ResourceID :: ID
  urm_ResourceType :: ResourceType
  urm_UserID :: ID

text \<open>\<open>OrgID\<close> and \<open>Organization\<close> are pointers (\<open>*ID\<close>, \<open>*string\<close>): \<open>None\<close> is nil.\<close>

record NotificationRuleFilter =
  f_OrgID :: "ID option"
  f_Organization :: "string option"
  f_Tags :: "Tag list"
  f_UserResourceMappingFilter :: UserResourceMappingFilter

subsection \<open>The request\<close>

text \<open>
  What the handlers read of an \<open>*http.Request\<close> and its context: the router's path
  parameters (\<open>ByName\<close> gives the empty string for a missing one), the URL's query
  values, the body (\<open>Inl\<close> when reading it fails) and the authorizer of the context
  (\<open>pctx.GetAuthorizer\<close>).
\<close>

record Request =
  req_Params :: "(string \<times> string) list"
  req_Query :: "string \<Rightarrow> string list"
  req_Body :: "error + string"
  req_Authorizer :: "error + Authorizer"

definition ByName :: "(string \<times> string) list \<Rightarrow> string \<Rightarrow> string" where
  "ByName ps name = (case map_of ps name of None \<Rightarrow> [] | Some v \<Rightarrow> v)"

definition Get :: "(string \<Rightarrow> string list) \<Rightarrow> string \<Rightarrow> string" where
  "Get q key = (case q key of [] \<Rightarrow> [] | v # vs \<Rightarrow> v)"

definition GetAuthorizer :: "Request \<Rightarrow> error + Authorizer" where
  "GetAuthorizer r = req_Authorizer r"

subsection \<open>Helpers of other files\<close>

record notificationRuleLinks =
  links_Self :: string
  links_Labels :: string
  links_Members :: string
  links_Owners :: string
  links_Query :: string

text \<open>
  \<open>DecodeFromString\<close> and \<open>ID_String\<close> are the methods of \<open>influxdb.ID\<close>;
  \<open>rule_UnmarshalJSON\<close> is \<open>rule.UnmarshalJSON\<close>; \<open>Unmarshal_statusDecode\<close> and
  \<open>Unmarshal_decodeLabels\<close> are \<open>json.Unmarshal\<close> into a \<open>statusDecode\<close> (whose
  \<open>Status\<close> is a pointer: \<open>None\<close> when the body has no status or a null one) and
  into a \<open>decodeLabels\<close>; \<open>Decode_NotificationRuleUpdate\<close> is the JSON decoder reading
  the body into a \<open>NotificationRuleUpdate\<close>, \<open>Valid\<close> that type's method,
  \<open>Error_string\<close> the method \<open>Error()\<close> of an error. \<open>json_Marshal_rule\<close> and
  \<open>json_Marshal_fields\<close> are \<open>json.Marshal\<close> on a rule and on the anonymous struct
  of \<open>MarshalJSON\<close> (labels, links, status, latestCompleted, latestScheduled,
  lastRunStatus, lastRunError), \<open>json_Marshal_PagingLinks\<close> on the paging links.
\<close>

record Ext =
  DecodeFromString :: "string \<Rightarrow> error + ID"
  ID_String :: "ID \<Rightarrow> string"
  decodeFindOptions :: "Request \<Rightarrow> error + FindOptions"
  NewTag :: "string \<Rightarrow> error + Tag"
  newPagingLinks :: "string \<Rightarrow> FindOptions \<Rightarrow> NotificationRuleFilter \<Rightarrow> nat \<Rightarrow> PagingLinks"
  rule_UnmarshalJSON :: "string \<Rightarrow> error + NotificationRule"
  Unmarshal_statusDecode :: "string \<Rightarrow> error + Status option"
  Unmarshal_decodeLabels :: "string \<Rightarrow> error + string list"
  Decode_NotificationRuleUpdate :: "error + string \<Rightarrow> error + NotificationRuleUpdate"
  Valid :: "NotificationRuleUpdate \<Rightarrow> error option"
  Error_string :: "error \<Rightarrow> string"
  GenerateFlux :: "NotificationRule \<Rightarrow> NotificationEndpoint \<Rightarrow> error + string"
  json_Marshal_rule :: "NotificationRule \<Rightarrow> error + string"
  json_Marshal_fields ::
    "Label list \<times> notificationRuleLinks \<times> string \<times> Time \<times> Time \<times> string \<times> string
      \<Rightarrow> error + string"
  json_Marshal_PagingLinks :: "PagingLinks \<Rightarrow> error + string"

text \<open>\<open>influxdb.IDFromString\<close>: \<open>DecodeFromString\<close> on a fresh identifier.\<close>

definition IDFromString :: "Ext \<Rightarrow> string \<Rightarrow> error + ID" where
  "IDFromString x str = DecodeFromString x str"

subsection \<open>The handler and its collaborators\<close>

datatype Service =
  NotificationRuleStore | NotificationEndpointService | LabelService | TaskService

text \<open>
  Every call of a collaborator is recorded with its main argument: the state of a
  handler run is the world with the calls made so far, oldest first.
  \<open>FindResourceLabels\<close> takes the resource ID of its \<open>LabelMappingFilter\<close>, the only
  field the file sets. \<open>CreateNotificationRule\<close> receives the rule through the
  interface's pointer and "sets b.ID with the new identifier" (the store's contract,
  quoted in the file): its success is the rule as the store leaves it.
\<close>

datatype Arg = NoArg | ArgID ID | ArgMapping LabelMapping

type_synonym Call = "Service \<times> string \<times> Arg"
type_synonym 'w St = "'w \<times> Call list"

record 'w NotificationRuleHandler =
  FindNotificationRuleByID :: "ID \<Rightarrow> 'w \<Rightarrow> (error + NotificationRule) \<times> 'w"
  FindNotificationRules ::
    "NotificationRuleFilter \<Rightarrow> FindOptions \<Rightarrow> 'w \<Rightarrow> (error + NotificationRule list \<times> int) \<times> 'w"
  CreateNotificationRule ::
    "NotificationRuleCreate \<Rightarrow> ID \<Rightarrow> 'w \<Rightarrow> (error + NotificationRule) \<times> 'w"
  UpdateNotificationRule ::
    "ID \<Rightarrow> NotificationRuleCreate \<Rightarrow> ID \<Rightarrow> 'w \<Rightarrow> (error + NotificationRule) \<times> 'w"
  PatchNotificationRule ::
    "ID \<Rightarrow> NotificationRuleUpdate \<Rightarrow> 'w \<Rightarrow> (error + NotificationRule) \<times> 'w"
  DeleteNotificationRule :: "ID \<Rightarrow> 'w \<Rightarrow> error option \<times> 'w"
  FindNotificationEndpointByID :: "ID \<Rightarrow> 'w \<Rightarrow> (error + NotificationEndpoint) \<times> 'w"
  FindResourceLabels :: "ID \<Rightarrow> 'w \<Rightarrow> (error + Label list) \<times> 'w"
  FindLabelByID :: "ID \<Rightarrow> 'w \<Rightarrow> (error + Label) \<times> 'w"
  CreateLabelMapping :: "LabelMapping \<Rightarrow> 'w \<Rightarrow> error option \<times> 'w"
  FindTaskByID :: "ID \<Rightarrow> 'w \<Rightarrow> (error + Task) \<times> 'w"

definition invoke :: "Call \<Rightarrow> ('w \<Rightarrow> 'a \<times> 'w) \<Rightarrow> 'w St \<Rightarrow> 'a \<times> 'w St" where
  "invoke c f s = (case f (fst s) of (r, w') \<Rightarrow> (r, (w', snd s @ [c])))"

definition prefixNotificationRules :: string where
  "prefixNotificationRules = ''/api/v2/notificationRules''"

subsection \<open>Response composition\<close>

record notificationRuleResponse =
  resp_NotificationRule :: NotificationRule
  resp_Labels :: "Label list"
  resp_Links :: notificationRuleLinks
  resp_Status :: string
  resp_LatestCompleted :: Time
  resp_LatestScheduled :: Time
  resp_LastRunStatus :: string
  resp_LastRunError :: string

record notificationRulesResponse =
  resps_NotificationRules :: "notificationRuleResponse list"
  resps_Links :: PagingLinks

text \<open>
  \<open>newNotificationRuleResponse\<close>: the task is looked up by the rule's task ID first;
  then the private data is cleared, and the links are formatted from the cleared rule's
  ID. In the create handler the argument is the request struct, whose methods are the
  embedded rule's (Go promotes them), so the model passes the rule.
\<close>

definition newNotificationRuleResponse ::
  "Ext \<Rightarrow> 'w NotificationRuleHandler \<Rightarrow> NotificationRule \<Rightarrow> Label list \<Rightarrow> 'w St
    \<Rightarrow> (error + notificationRuleResponse) \<times> 'w St" where
  "newNotificationRuleResponse x h nr labels s =
    (case invoke (TaskService, ''FindTaskByID'', ArgID (GetTaskID nr)) (FindTaskByID h (GetTaskID nr)) s of
      (Inl err, s1) \<Rightarrow> (Inl err, s1)
    | (Inr t, s1) \<Rightarrow>
        (let nr' = ClearPrivateData nr in
         (Inr \<lparr> resp_NotificationRule = nr',
                resp_Labels = [] @ labels,
                resp_Links = \<lparr>
                  links_Self = ''/api/v2/notificationRules/'' @ ID_String x (GetID nr'),
                  links_Labels = ''/api/v2/notificationRules/'' @ ID_String x (GetID nr') @ ''/labels'',
                  links_Members = ''/api/v2/notificationRules/'' @ ID_String x (GetID nr') @ ''/members'',
                  links_Owners = ''/api/v2/notificationRules/'' @ ID_String x (GetID nr') @ ''/owners'',
                  links_Query = ''/api/v2/notificationRules/'' @ ID_String x (GetID nr') @ ''/query'' \<rparr>,
                resp_Status = task_Status t,
                resp_LatestCompleted = task_LatestCompleted t,
                resp_LatestScheduled = task_LatestScheduled t,
                resp_LastRunStatus = task_LastRunStatus t,
                resp_LastRunError = task_LastRunError t \<rparr>, s1)))"

text \<open>
  The loop of \<open>newNotificationRulesResponse\<close>: \<open>acc\<close> is \<open>resp.NotificationRules\<close>.
  The error of \<open>FindResourceLabels\<close> is discarded (the labels are then the nil slice);
  a rule whose composition fails is skipped by \<open>continue\<close>.
\<close>

fun newNotificationRulesResponse_loop ::
  "Ext \<Rightarrow> 'w NotificationRuleHandler \<Rightarrow> NotificationRule list \<Rightarrow> notificationRuleResponse list
    \<Rightarrow> 'w St \<Rightarrow> notificationRuleResponse list \<times> 'w St" where
  "newNotificationRulesResponse_loop x h [] acc s = (acc, s)"
| "newNotificationRulesResponse_loop x h (nr # nrs) acc s =
    (case invoke (LabelService, ''FindResourceLabels'', ArgID (GetID nr))
            (FindResourceLabels h (GetID nr)) s of
      (lr, s1) \<Rightarrow>
        (let labels = (case lr of Inl err \<Rightarrow> [] | Inr ls \<Rightarrow> ls) in
         (case newNotificationRuleResponse x h nr labels s1 of
            (Inl err, s2) \<Rightarrow> newNotificationRulesResponse_loop x h nrs acc s2
          | (Inr res, s2) \<Rightarrow> newNotificationRulesResponse_loop x h nrs (acc @ [res]) s2)))"

definition newNotificationRulesResponse ::
  "Ext \<Rightarrow> 'w NotificationRuleHandler \<Rightarrow> NotificationRule list \<Rightarrow> NotificationRuleFilter
    \<Rightarrow> FindOptions \<Rightarrow> 'w St \<Rightarrow> (error + notificationRulesResponse) \<times> 'w St" where
  "newNotificationRulesResponse x h nrs f opts s =
    (case newNotificationRulesResponse_loop x h nrs [] s of
      (items, s') \<Rightarrow>
        (Inr \<lparr> resps_NotificationRules = items,
               resps_Links = newPagingLinks x prefixNotificationRules opts f (length nrs) \<rparr>, s'))"

subsection \<open>Request decoding\<close>

datatype 'a Result = Ok 'a | Err error | Panicked

definition decodeGetNotificationRuleRequest :: "Ext \<Rightarrow> Request \<Rightarrow> ID Result" where
  "decodeGetNotificationRuleRequest x r =
    (let idStr = ByName (req_Params r) ''id'' in
     if idStr = [] then Err (Error EInvalid ''url missing id'' [] None)
     else (case DecodeFromString x idStr of
             Inl err \<Rightarrow> Err err
           | Inr i \<Rightarrow> Ok i))"

definition decodeUserResourceMappingFilter ::
  "Ext \<Rightarrow> Request \<Rightarrow> ResourceType \<Rightarrow> error + UserResourceMappingFilter" where
  "decodeUserResourceMappingFilter x r typ =
    (let q = req_Query r;
         f = \<lparr> urm_ResourceID = 0, urm_ResourceType = typ, urm_UserID = 0 \<rparr>;
         r1 = (if Get q ''resourceID'' \<noteq> [] then
                 (case IDFromString x (Get q ''resourceID'') of
                    Inl err \<Rightarrow> Inl err
                  | Inr i \<Rightarrow> Inr (f\<lparr>urm_ResourceID := i\<rparr>))
               else Inr f)
     in case r1 of
          Inl err \<Rightarrow> Inl err
        | Inr f1 \<Rightarrow>
            (if Get q ''userID'' \<noteq> [] then
               (case IDFromString x (Get q ''userID'') of
                  Inl err \<Rightarrow> Inl err
                | Inr i \<Rightarrow> Inr (f1\<lparr>urm_UserID := i\<rparr>))
             else Inr f1))"

text \<open>The loop over \<open>q["tag"]\<close>: a tag that \<open>NewTag\<close> rejects is ignored.\<close>

fun decodeNotificationRuleFilter_tags ::
  "Ext \<Rightarrow> string list \<Rightarrow> NotificationRuleFilter \<Rightarrow> NotificationRuleFilter" where
  "decodeNotificationRuleFilter_tags x [] f = f"
| "decodeNotificationRuleFilter_tags x (tag # tags) f =
    (case NewTag x tag of
       Inl err \<Rightarrow> decodeNotificationRuleFilter_tags x tags f
     | Inr tp \<Rightarrow> decodeNotificationRuleFilter_tags x tags (f\<lparr>f_Tags := f_Tags f @ [tp]\<rparr>))"

text \<open>
  \<open>decodeNotificationRuleFilter\<close>. The filter starts as the zero value, both pointers
  nil. \<open>*f.Organization = orgNameStr\<close> writes through the pointer \<open>f.Organization\<close>:
  a nil pointer there is a panic. The \<open>err\<close> returned at the end is the one of
  \<open>decodeFindOptions\<close>, nil at that point.
\<close>

definition decodeNotificationRuleFilter ::
  "Ext \<Rightarrow> Request \<Rightarrow> (NotificationRuleFilter \<times> FindOptions) Result" where
  "decodeNotificationRuleFilter x r =
    (let f0 = \<lparr> f_OrgID = None, f_Organization = None, f_Tags = [],
                f_UserResourceMappingFilter =
                  \<lparr> urm_ResourceID = 0, urm_ResourceType = NoResourceType, urm_UserID = 0 \<rparr> \<rparr>;
         f = (case decodeUserResourceMappingFilter x r NotificationRuleResourceType of
                Inr urm \<Rightarrow> f0\<lparr>f_UserResourceMappingFilter := urm\<rparr>
              | Inl err \<Rightarrow> f0)
     in case decodeFindOptions x r of
          Inl err \<Rightarrow> Err err
        | Inr opts \<Rightarrow>
            (let q = req_Query r in
             if Get q ''orgID'' \<noteq> [] then
               (case IDFromString x (Get q ''orgID'') of
                  Inl err \<Rightarrow> Err (Error EInvalid ''orgID is invalid'' [] (Some err))
                | Inr orgID \<Rightarrow>
                    Ok (decodeNotificationRuleFilter_tags x (q ''tag'') (f\<lparr>f_OrgID := Some orgID\<rparr>), opts))
             else if Get q ''org'' \<noteq> [] then
               (case f_Organization f of
                  None \<Rightarrow> Panicked
                | Some p \<Rightarrow>
                    Ok (decodeNotificationRuleFilter_tags x (q ''tag'')
                          (f\<lparr>f_Organization := Some (Get q ''org'')\<rparr>), opts))
             else Ok (decodeNotificationRuleFilter_tags x (q ''tag'') f, opts)))"

record postNotificationRuleRequest =
  pnrr_NotificationRuleCreate :: NotificationRuleCreate
  pnrr_Labels :: "string list"

text \<open>
  \<open>decodePostNotificationRuleRequest\<close>: \<open>*sts.Status\<close> is read when the struct
  literal is built, after the three decodings; a nil \<open>sts.Status\<close> is a panic.
\<close>

definition decodePostNotificationRuleRequest ::
  "Ext \<Rightarrow> Request \<Rightarrow> postNotificationRuleRequest Result" where
  "decodePostNotificationRuleRequest x r =
    (case req_Body r of
       Inl err \<Rightarrow> Err (Error EInvalid [] [] (Some err))
     | Inr buf \<Rightarrow>
        (case rule_UnmarshalJSON x buf of
           Inl err \<Rightarrow> Err (Error EInvalid [] [] (Some err))
         | Inr nr \<Rightarrow>
            (case Unmarshal_statusDecode x buf of
               Inl err \<Rightarrow> Err err
             | Inr sts \<Rightarrow>
                (case Unmarshal_decodeLabels x buf of
                   Inl err \<Rightarrow> Err err
                 | Inr dl \<Rightarrow>
                    (case sts of
                       None \<Rightarrow> Panicked
                     | Some st \<Rightarrow>
                         Ok \<lparr> pnrr_NotificationRuleCreate =
                                \<lparr> nrc_NotificationRule = nr, nrc_Status = st \<rparr>,
                              pnrr_Labels = dl \<rparr>)))))"

definition decodePutNotificationRuleRequest ::
  "Ext \<Rightarrow> Request \<Rightarrow> NotificationRuleCreate Result" where
  "decodePutNotificationRuleRequest x r =
    (case req_Body r of
       Inl err \<Rightarrow> Err (Error EInvalid [] [] (Some err))
     | Inr buf \<Rightarrow>
        (case rule_UnmarshalJSON x buf of
           Inl err \<Rightarrow> Err (Error EInvalid [] [] (Some err))
         | Inr nr \<Rightarrow>
            (let idStr = ByName (req_Params r) ''id'' in
             if idStr = [] then Err (Error EInvalid ''url missing id'' [] None)
             else (case DecodeFromString x idStr of
                     Inl err \<Rightarrow> Err err
                   | Inr i \<Rightarrow>
                      (let nr' = SetID i nr in
                       case Unmarshal_statusDecode x buf of
                         Inl err \<Rightarrow> Err err
                       | Inr sts \<Rightarrow>
                          (case sts of
                             None \<Rightarrow> Panicked
                           | Some st \<Rightarrow>
                               Ok \<lparr> nrc_NotificationRule = nr', nrc_Status = st \<rparr>))))))"

record patchNotificationRuleRequest =
  pnr_ID :: ID
  pnr_Update :: NotificationRuleUpdate

definition decodePatchNotificationRuleRequest ::
  "Ext \<Rightarrow> Request \<Rightarrow> patchNotificationRuleRequest Result" where
  "decodePatchNotificationRuleRequest x r =
    (let idStr = ByName (req_Params r) ''id'' in
     if idStr = [] then Err (Error EInvalid ''url missing id'' [] None)
     else (case DecodeFromString x idStr of
             Inl err \<Rightarrow> Err err
           | Inr i \<Rightarrow>
              (case Decode_NotificationRuleUpdate x (req_Body r) of
                 Inl err \<Rightarrow> Err (Error EInvalid (Error_string x err) [] None)
               | Inr upd \<Rightarrow>
                  (case Valid x upd of
                     Some err \<Rightarrow> Err (Error EInvalid (Error_string x err) [] None)
                   | None \<Rightarrow> Ok \<lparr> pnr_ID = i, pnr_Update = upd \<rparr>))))"

subsection \<open>Label attachment on create\<close>

text \<open>
  The loop of \<open>mapNewNotificationRuleLabels\<close>: \<open>ls\<close> is the slice of labels attached
  so far. Each of the three steps of a candidate ends its iteration by \<open>continue\<close>
  when it fails.
\<close>

fun mapNewNotificationRuleLabels_loop ::
  "Ext \<Rightarrow> 'w NotificationRuleHandler \<Rightarrow> NotificationRuleCreate \<Rightarrow> string list \<Rightarrow> Label list
    \<Rightarrow> 'w St \<Rightarrow> Label list \<times> 'w St" where
  "mapNewNotificationRuleLabels_loop x h nrc [] ls s = (ls, s)"
| "mapNewNotificationRuleLabels_loop x h nrc (sid # labels) ls s =
    (case DecodeFromString x sid of
       Inl err \<Rightarrow> mapNewNotificationRuleLabels_loop x h nrc labels ls s
     | Inr lid \<Rightarrow>
        (case invoke (LabelService, ''FindLabelByID'', ArgID lid) (FindLabelByID h lid) s of
           (Inl err, s1) \<Rightarrow> mapNewNotificationRuleLabels_loop x h nrc labels ls s1
         | (Inr label, s1) \<Rightarrow>
            (let mapping = \<lparr> lm_LabelID = label_ID label,
                             lm_ResourceID = GetID (nrc_NotificationRule nrc),
                             lm_ResourceType = NotificationRuleResourceType \<rparr>
             in case invoke (LabelService, ''CreateLabelMapping'', ArgMapping mapping)
                       (CreateLabelMapping h mapping) s1 of
                  (Some err, s2) \<Rightarrow> mapNewNotificationRuleLabels_loop x h nrc labels ls s2
                | (None, s2) \<Rightarrow>
                    mapNewNotificationRuleLabels_loop x h nrc labels (ls @ [label]) s2)))"

definition mapNewNotificationRuleLabels ::
  "Ext \<Rightarrow> 'w NotificationRuleHandler \<Rightarrow> NotificationRuleCreate \<Rightarrow> string list \<Rightarrow> 'w St
    \<Rightarrow> Label list \<times> 'w St" where
  "mapNewNotificationRuleLabels x h nrc labels s =
    mapNewNotificationRuleLabels_loop x h nrc labels [] s"

subsection \<open>The handlers\<close>

text \<open>
  What a handler does to the response writer: \<open>h.HandleHTTPError\<close> with an error,
  \<open>encodeResponse\<close> with a status code and the value to encode, \<open>w.WriteHeader\<close>
  alone, or a panic. The handler's state after it is returned with the outcome.
\<close>

datatype Body =
    RuleBody notificationRuleResponse
  | RulesBody notificationRulesResponse
  | FluxBody string

datatype Outcome =
    HandleHTTPError error
  | encodeResponse nat Body
  | WriteHeader nat
  | Panic

definition StatusOK :: nat where "StatusOK = 200"
definition StatusCreated :: nat where "StatusCreated = 201"
definition StatusNoContent :: nat where "StatusNoContent = 204"

definition handleGetNotificationRules ::
  "Ext \<Rightarrow> 'w NotificationRuleHandler \<Rightarrow> Request \<Rightarrow> 'w St \<Rightarrow> Outcome \<times> 'w St" where
  "handleGetNotificationRules x h r s =
    (case decodeNotificationRuleFilter x r of
       Panicked \<Rightarrow> (Panic, s)
     | Err err \<Rightarrow> (HandleHTTPError err, s)
     | Ok (fltr, opts) \<Rightarrow>
        (case invoke (NotificationRuleStore, ''FindNotificationRules'', NoArg)
                (FindNotificationRules h fltr opts) s of
           (Inl err, s1) \<Rightarrow> (HandleHTTPError err, s1)
         | (Inr (nrs, n), s1) \<Rightarrow>
            (case newNotificationRulesResponse x h nrs fltr opts s1 of
               (Inl err, s2) \<Rightarrow> (HandleHTTPError err, s2)
             | (Inr res, s2) \<Rightarrow> (encodeResponse StatusOK (RulesBody res), s2))))"

definition handleGetNotificationRuleQuery ::
  "Ext \<Rightarrow> 'w NotificationRuleHandler \<Rightarrow> Request \<Rightarrow> 'w St \<Rightarrow> Outcome \<times> 'w St" where
  "handleGetNotificationRuleQuery x h r s =
    (case decodeGetNotificationRuleRequest x r of
       Panicked \<Rightarrow> (Panic, s)
     | Err err \<Rightarrow> (HandleHTTPError err, s)
     | Ok i \<Rightarrow>
        (case invoke (NotificationRuleStore, ''FindNotificationRuleByID'', ArgID i)
                (FindNotificationRuleByID h i) s of
           (Inl err, s1) \<Rightarrow> (HandleHTTPError err, s1)
         | (Inr nr, s1) \<Rightarrow>
            (case invoke (NotificationEndpointService, ''FindNotificationEndpointByID'',
                          ArgID (GetEndpointID nr))
                    (FindNotificationEndpointByID h (GetEndpointID nr)) s1 of
               (Inl err, s2) \<Rightarrow>
                 (HandleHTTPError
                    (Error EInternal [] ''http/handleGetNotificationRuleQuery'' (Some err)), s2)
             | (Inr edp, s2) \<Rightarrow>
                (case GenerateFlux x nr edp of
                   Inl err \<Rightarrow> (HandleHTTPError err, s2)
                 | Inr flux \<Rightarrow> (encodeResponse StatusOK (FluxBody flux), s2)))))"

definition handleGetNotificationRule ::
  "Ext \<Rightarrow> 'w NotificationRuleHandler \<Rightarrow> Request \<Rightarrow> 'w St \<Rightarrow> Outcome \<times> 'w St" where
  "handleGetNotificationRule x h r s =
    (case decodeGetNotificationRuleRequest x r of
       Panicked \<Rightarrow> (Panic, s)
     | Err err \<Rightarrow> (HandleHTTPError err, s)
     | Ok i \<Rightarrow>
        (case invoke (NotificationRuleStore, ''FindNotificationRuleByID'', ArgID i)
                (FindNotificationRuleByID h i) s of
           (Inl err, s1) \<Rightarrow> (HandleHTTPError err, s1)
         | (Inr nr, s1) \<Rightarrow>
            (case invoke (LabelService, ''FindResourceLabels'', ArgID (GetID nr))
                    (FindResourceLabels h (GetID nr)) s1 of
               (Inl err, s2) \<Rightarrow> (HandleHTTPError err, s2)
             | (Inr labels, s2) \<Rightarrow>
                (case newNotificationRuleResponse x h nr labels s2 of
                   (Inl err, s3) \<Rightarrow> (HandleHTTPError err, s3)
                 | (Inr res, s3) \<Rightarrow> (encodeResponse StatusOK (RuleBody res), s3)))))"

text \<open>
  \<open>handlePostNotificationRule\<close>. After the store's create, \<open>nr\<close> is the rule as the
  store left it; the status and the label strings of the request are unchanged.
\<close>

definition handlePostNotificationRule ::
  "Ext \<Rightarrow> 'w NotificationRuleHandler \<Rightarrow> Request \<Rightarrow> 'w St \<Rightarrow> Outcome \<times> 'w St" where
  "handlePostNotificationRule x h r s =
    (case decodePostNotificationRuleRequest x r of
       Panicked \<Rightarrow> (Panic, s)
     | Err err \<Rightarrow> (HandleHTTPError err, s)
     | Ok nr \<Rightarrow>
        (case GetAuthorizer r of
           Inl err \<Rightarrow> (HandleHTTPError err, s)
         | Inr auth \<Rightarrow>
            (case invoke (NotificationRuleStore, ''CreateNotificationRule'', NoArg)
                    (CreateNotificationRule h (pnrr_NotificationRuleCreate nr) (GetUserID auth)) s of
               (Inl err, s1) \<Rightarrow> (HandleHTTPError err, s1)
             | (Inr created, s1) \<Rightarrow>
                (let nrc = (pnrr_NotificationRuleCreate nr)\<lparr>nrc_NotificationRule := created\<rparr> in
                 case mapNewNotificationRuleLabels x h nrc (pnrr_Labels nr) s1 of
                   (labels, s2) \<Rightarrow>
                     (case newNotificationRuleResponse x h (nrc_NotificationRule nrc) labels s2 of
                        (Inl err, s3) \<Rightarrow> (HandleHTTPError err, s3)
                      | (Inr res, s3) \<Rightarrow> (encodeResponse StatusCreated (RuleBody res), s3))))))"

definition handlePutNotificationRule ::
  "Ext \<Rightarrow> 'w NotificationRuleHandler \<Rightarrow> Request \<Rightarrow> 'w St \<Rightarrow> Outcome \<times> 'w St" where
  "handlePutNotificationRule x h r s =
    (case decodePutNotificationRuleRequest x r of
       Panicked \<Rightarrow> (Panic, s)
     | Err err \<Rightarrow> (HandleHTTPError err, s)
     | Ok nrc \<Rightarrow>
        (case GetAuthorizer r of
           Inl err \<Rightarrow> (HandleHTTPError err, s)
         | Inr auth \<Rightarrow>
            (case invoke (NotificationRuleStore, ''UpdateNotificationRule'',
                          ArgID (GetID (nrc_NotificationRule nrc)))
                    (UpdateNotificationRule h (GetID (nrc_NotificationRule nrc)) nrc (GetUserID auth)) s of
               (Inl err, s1) \<Rightarrow> (HandleHTTPError err, s1)
             | (Inr nr, s1) \<Rightarrow>
                (case invoke (LabelService, ''FindResourceLabels'', ArgID (GetID nr))
                        (FindResourceLabels h (GetID nr)) s1 of
                   (Inl err, s2) \<Rightarrow> (HandleHTTPError err, s2)
                 | (Inr labels, s2) \<Rightarrow>
                    (case newNotificationRuleResponse x h nr labels s2 of
                       (Inl err, s3) \<Rightarrow> (HandleHTTPError err, s3)
                     | (Inr res, s3) \<Rightarrow> (encodeResponse StatusOK (RuleBody res), s3))))))"

definition handlePatchNotificationRule ::
  "Ext \<Rightarrow> 'w NotificationRuleHandler \<Rightarrow> Request \<Rightarrow> 'w St \<Rightarrow> Outcome \<times> 'w St" where
  "handlePatchNotificationRule x h r s =
    (case decodePatchNotificationRuleRequest x r of
       Panicked \<Rightarrow> (Panic, s)
     | Err err \<Rightarrow> (HandleHTTPError err, s)
     | Ok req \<Rightarrow>
        (case invoke (NotificationRuleStore, ''PatchNotificationRule'', ArgID (pnr_ID req))
                (PatchNotificationRule h (pnr_ID req) (pnr_Update req)) s of
           (Inl err, s1) \<Rightarrow> (HandleHTTPError err, s1)
         | (Inr nr, s1) \<Rightarrow>
            (case invoke (LabelService, ''FindResourceLabels'', ArgID (GetID nr))
                    (FindResourceLabels h (GetID nr)) s1 of
               (Inl err, s2) \<Rightarrow> (HandleHTTPError err, s2)
             | (Inr labels, s2) \<Rightarrow>
                (case newNotificationRuleResponse x h nr labels s2 of
                   (Inl err, s3) \<Rightarrow> (HandleHTTPError err, s3)
                 | (Inr res, s3) \<Rightarrow> (encodeResponse StatusOK (RuleBody res), s3)))))"

definition handleDeleteNotificationRule ::
  "Ext \<Rightarrow> 'w NotificationRuleHandler \<Rightarrow> Request \<Rightarrow> 'w St \<Rightarrow> Outcome \<times> 'w St" where
  "handleDeleteNotificationRule x h r s =
    (case decodeGetNotificationRuleRequest x r of
       Panicked \<Rightarrow> (Panic, s)
     | Err err \<Rightarrow> (HandleHTTPError err, s)
     | Ok i \<Rightarrow>
        (case invoke (NotificationRuleStore, ''DeleteNotificationRule'', ArgID i)
                (DeleteNotificationRule h i) s of
           (Some err, s1) \<Rightarrow> (HandleHTTPError err, s1)
         | (None, s1) \<Rightarrow> (WriteHeader StatusNoContent, s1)))"

subsection \<open>Encoding\<close>

text \<open>
  \<open>notificationRuleResponse.MarshalJSON\<close> splices two encodings: the rule's without
  its last byte, a comma and a space, and the other fields' without their first byte.
  Slicing an empty encoding that way is out of range in Go, a panic.
\<close>

definition MarshalJSON :: "Ext \<Rightarrow> notificationRuleResponse \<Rightarrow> string Result" where
  "MarshalJSON x resp =
    (case json_Marshal_rule x (resp_NotificationRule resp) of
       Inl err \<Rightarrow> Err err
     | Inr b1 \<Rightarrow>
        (case json_Marshal_fields x
                (resp_Labels resp, resp_Links resp, resp_Status resp, resp_LatestCompleted resp,
                 resp_LatestScheduled resp, resp_LastRunStatus resp, resp_LastRunError resp) of
           Inl err \<Rightarrow> Err err
         | Inr b2 \<Rightarrow>
            (if b1 = [] \<or> b2 = [] then Panicked
             else Ok (butlast b1 @ '', '' @ tl b2))))"

text \<open>
  The encoding of a \<open>notificationRulesResponse\<close> by encoding/json: an object with one
  member per field, named by the field's \<open>json\<close> tag, in the order of the fields. The
  items are encoded by their own \<open>MarshalJSON\<close>; \<open>JRaw\<close> carries a marshaller's bytes.
\<close>

datatype json = JRaw string | JArray "json list" | JObject "(string \<times> json) list"

fun marshal_items :: "Ext \<Rightarrow> notificationRuleResponse list \<Rightarrow> json list Result" where
  "marshal_items x [] = Ok []"
| "marshal_items x (res # rest) =
    (case MarshalJSON x res of
       Panicked \<Rightarrow> Panicked
     | Err err \<Rightarrow> Err err
     | Ok b \<Rightarrow>
        (case marshal_items x rest of
           Panicked \<Rightarrow> Panicked
         | Err err \<Rightarrow> Err err
         | Ok js \<Rightarrow> Ok (JRaw b # js)))"

definition marshal_notificationRulesResponse ::
  "Ext \<Rightarrow> notificationRulesResponse \<Rightarrow> json Result" where
  "marshal_notificationRulesResponse x res =
    (case marshal_items x (resps_NotificationRules res) of
       Panicked \<Rightarrow> Panicked
     | Err err \<Rightarrow> Err err
     | Ok items \<Rightarrow>
        (case json_Marshal_PagingLinks x (resps_Links res) of
           Inl err \<Rightarrow> Err err
         | Inr links \<Rightarrow>
             Ok (JObject [(''notificationRules'', JArray items), (''links'', JRaw links)])))"

fun member_names :: "json \<Rightarrow> string list" where
  "member_names (JObject ms) = map fst ms"
| "member_names (JArray js) = []"
| "member_names (JRaw b) = []"

subsection \<open>The routes\<close>

record MemberBackend =
  mb_ResourceType :: ResourceType
  mb_UserType :: UserType

record LabelBackend =
  lb_ResourceType :: ResourceType

text \<open>
  The handler functions \<open>NewNotificationRuleHandler\<close> registers: the seven methods of
  this file, and the member, owner and label handlers of other files, each built from
  the backend this file configures.
\<close>

datatype HandlerFunc =
    HandlePostNotificationRule
  | HandleGetNotificationRules
  | HandleGetNotificationRule
  | HandleGetNotificationRuleQuery
  | HandleDeleteNotificationRule
  | HandlePutNotificationRule
  | HandlePatchNotificationRule
  | newPostMemberHandler MemberBackend
  | newGetMembersHandler MemberBackend
  | newDeleteMemberHandler MemberBackend
  | newGetLabelsHandler LabelBackend
  | newPostLabelHandler LabelBackend
  | newDeleteLabelHandler LabelBackend

definition notificationRulesIDPath :: string where
  "notificationRulesIDPath = ''/api/v2/notificationRules/:id''"
definition notificationRulesIDQueryPath :: string where
  "notificationRulesIDQueryPath = ''/api/v2/notificationRules/:id/query''"
definition notificationRulesIDMembersPath :: string where
  "notificationRulesIDMembersPath = ''/api/v2/notificationRules/:id/members''"
definition notificationRulesIDMembersIDPath :: string where
  "notificationRulesIDMembersIDPath = ''/api/v2/notificationRules/:id/members/:userID''"
definition notificationRulesIDOwnersPath :: string where
  "notificationRulesIDOwnersPath = ''/api/v2/notificationRules/:id/owners''"
definition notificationRulesIDOwnersIDPath :: string where
  "notificationRulesIDOwnersIDPath = ''/api/v2/notificationRules/:id/owners/:userID''"
definition notificationRulesIDLabelsPath :: string where
  "notificationRulesIDLabelsPath = ''/api/v2/notificationRules/:id/labels''"
definition notificationRulesIDLabelsIDPath :: string where
  "notificationRulesIDLabelsIDPath = ''/api/v2/notificationRules/:id/labels/:lid''"

definition NewNotificationRuleHandler :: "(string \<times> string \<times> HandlerFunc) list" where
  "NewNotificationRuleHandler =
    (let memberBackend = \<lparr> mb_ResourceType = NotificationRuleResourceType, mb_UserType = Member \<rparr>;
         ownerBackend = \<lparr> mb_ResourceType = NotificationRuleResourceType, mb_UserType = Owner \<rparr>;
         labelBackend = \<lparr> lb_ResourceType = TelegrafsResourceType \<rparr>
     in [(''POST'', prefixNotificationRules, HandlePostNotificationRule),
         (''GET'', prefixNotificationRules, HandleGetNotificationRules),
         (''GET'', notificationRulesIDPath, HandleGetNotificationRule),
         (''GET'', notificationRulesIDQueryPath, HandleGetNotificationRuleQuery),
         (''DELETE'', notificationRulesIDPath, HandleDeleteNotificationRule),
         (''PUT'', notificationRulesIDPath, HandlePutNotificationRule),
         (''PATCH'', notificationRulesIDPath, HandlePatchNotificationRule),
         (''POST'', notificationRulesIDMembersPath, newPostMemberHandler memberBackend),
         (''GET'', notificationRulesIDMembersPath, newGetMembersHandler memberBackend),
         (''DELETE'', notificationRulesIDMembersIDPath, newDeleteMemberHandler memberBackend),
         (''POST'', notificationRulesIDOwnersPath, newPostMemberHandler ownerBackend),
         (''GET'', notificationRulesIDOwnersPath, newGetMembersHandler ownerBackend),
         (''DELETE'', notificationRulesIDOwnersIDPath, newDeleteMemberHandler ownerBackend),
         (''GET'', notificationRulesIDLabelsPath, newGetLabelsHandler labelBackend),
         (''POST'', notificationRulesIDLabelsPath, newPostLabelHandler labelBackend),
         (''DELETE'', notificationRulesIDLabelsIDPath, newDeleteLabelHandler labelBackend)])"

text \<open>The handler function a method and a route pattern are registered with, if any.\<close>

definition route :: "string \<Rightarrow> string \<Rightarrow> HandlerFunc option" where
  "route method pat =
    map_option (\<lambda>e. snd (snd e)) (find (\<lambda>e. fst e = method \<and> fst (snd e) = pat) NewNotificationRuleHandler)"

subsection \<open>The client-side store (\<open>NotificationRuleService\<close>)\<close>

text \<open>
  The adapter's only effect is the wire: a request built on \<open>s.Client\<close> and run by
  \<open>Do\<close>. The state of the adapter is the remote side \<open>'c\<close> with the requests sent so
  far. \<open>Do\<close> gives the error of the exchange and what \<open>DecodeJSON\<close> left in the
  decoder's \<open>rule\<close>. The methods return Go's tuples as they are written: the stubs
  return the nil rule together with the nil error.
\<close>

datatype WireCall = PostJSON NotificationRuleCreate string | WireGet string

type_synonym 'c Wire = "'c \<times> WireCall list"

record 'c Client =
  Do :: "WireCall \<Rightarrow> 'c \<Rightarrow> (NotificationRule option \<times> error option) \<times> 'c"

definition send :: "'c Client \<Rightarrow> WireCall \<Rightarrow> 'c Wire \<Rightarrow> (NotificationRule option \<times> error option) \<times> 'c Wire" where
  "send cl c s = (case Do cl c (fst s) of (r, c') \<Rightarrow> (r, (c', snd s @ [c])))"

definition getNotificationRulesIDPath :: "Ext \<Rightarrow> ID \<Rightarrow> string" where
  "getNotificationRulesIDPath x i2 = prefixNotificationRules @ ''/'' @ ID_String x i2"

definition Service_CreateNotificationRule ::
  "'c Client \<Rightarrow> NotificationRuleCreate \<Rightarrow> ID \<Rightarrow> 'c Wire \<Rightarrow> error option \<times> 'c Wire" where
  "Service_CreateNotificationRule cl nr userID s =
    (case send cl (PostJSON nr prefixNotificationRules) s of
       ((rule, err), s') \<Rightarrow> (err, s'))"

definition Service_FindNotificationRuleByID ::
  "Ext \<Rightarrow> 'c Client \<Rightarrow> ID \<Rightarrow> 'c Wire \<Rightarrow> (NotificationRule option \<times> error option) \<times> 'c Wire" where
  "Service_FindNotificationRuleByID x cl i2 s =
    (case send cl (WireGet (getNotificationRulesIDPath x i2)) s of
       ((rule, err), s') \<Rightarrow> ((rule, err), s'))"

definition Service_FindNotificationRules ::
  "'c Client \<Rightarrow> NotificationRuleFilter \<Rightarrow> FindOptions list \<Rightarrow> 'c Wire
    \<Rightarrow> (NotificationRule list \<times> int \<times> error option) \<times> 'c Wire" where
  "Service_FindNotificationRules cl fltr opt s = (([], 0, None), s)"

definition Service_UpdateNotificationRule ::
  "'c Client \<Rightarrow> ID \<Rightarrow> NotificationRuleCreate \<Rightarrow> ID \<Rightarrow> 'c Wire
    \<Rightarrow> (NotificationRule option \<times> error option) \<times> 'c Wire" where
  "Service_UpdateNotificationRule cl i2 nr userID s = ((None, None), s)"

definition Service_PatchNotificationRule ::
  "'c Client \<Rightarrow> ID \<Rightarrow> NotificationRuleUpdate \<Rightarrow> 'c Wire
    \<Rightarrow> (NotificationRule option \<times> error option) \<times> 'c Wire" where
  "Service_PatchNotificationRule cl i2 upd s = ((None, None), s)"

definition Service_DeleteNotificationRule ::
  "'c Client \<Rightarrow> ID \<Rightarrow> 'c Wire \<Rightarrow> error option \<times> 'c Wire" where
  "Service_DeleteNotificationRule cl i2 s = (None, s)"

subsection \<open>Label attachment in the spec's words\<close>

text \<open>
  The spec (section 4.2): for each candidate string, independently: decode it as an
  identifier (skip on failure), resolve it to a label (skip if not found), create a
  mapping record (skip if creation fails). \<open>attachLabels_candidate\<close> is the outcome of
  one candidate for the rule \<open>ruleID\<close>: \<open>Some\<close> label when the three steps succeed,
  \<open>None\<close> when one fails. \<open>attachLabels_outcomes\<close> runs the candidates in order, each
  from the state the one before left; \<open>attached\<close> keeps the labels of the successes.
\<close>

definition attachLabels_candidate ::
  "Ext \<Rightarrow> 'w NotificationRuleHandler \<Rightarrow> ID \<Rightarrow> string \<Rightarrow> 'w St \<Rightarrow> Label option \<times> 'w St" where
  "attachLabels_candidate x h ruleID sid s =
    (case DecodeFromString x sid of
       Inl err \<Rightarrow> (None, s)
     | Inr lid \<Rightarrow>
        (case invoke (LabelService, ''FindLabelByID'', ArgID lid) (FindLabelByID h lid) s of
           (Inl err, s1) \<Rightarrow> (None, s1)
         | (Inr label, s1) \<Rightarrow>
            (case invoke (LabelService, ''CreateLabelMapping'',
                          ArgMapping \<lparr> lm_LabelID = label_ID label, lm_ResourceID = ruleID,
                                       lm_ResourceType = NotificationRuleResourceType \<rparr>)
                    (CreateLabelMapping h
                       \<lparr> lm_LabelID = label_ID label, lm_ResourceID = ruleID,
                         lm_ResourceType = NotificationRuleResourceType \<rparr>) s1 of
               (Some err, s2) \<Rightarrow> (None, s2)
             | (None, s2) \<Rightarrow> (Some label, s2))))"

fun attachLabels_outcomes ::
  "Ext \<Rightarrow> 'w NotificationRuleHandler \<Rightarrow> ID \<Rightarrow> string list \<Rightarrow> 'w St \<Rightarrow> Label option list \<times> 'w St" where
  "attachLabels_outcomes x h ruleID [] s = ([], s)"
| "attachLabels_outcomes x h ruleID (sid # sids) s =
    (case attachLabels_candidate x h ruleID sid s of
       (out, s1) \<Rightarrow>
         (case attachLabels_outcomes x h ruleID sids s1 of
            (outs, s2) \<Rightarrow> (out # outs, s2)))"

definition attached :: "Label option list \<Rightarrow> Label list" where
  "attached outs = concat (map (\<lambda>out. case out of None \<Rightarrow> [] | Some l \<Rightarrow> [l]) outs)"

subsection \<open>An example deployment\<close>

text \<open>
  Concrete collaborators for the closed theorems below. The world is the list of label
  mappings created so far. Three rules are stored; the label lookup of rule 1 fails and
  the task of rule 2 does not exist. Only label 1 exists, and a mapping cannot be
  created twice. Two request bodies decode as a rule: one with a status and four label
  candidates, one with neither status nor labels.
\<close>

definition ex_rule1 :: NotificationRule where
  "ex_rule1 = \<lparr> GetID = 1, GetOrgID = 7, GetTaskID = 10, GetEndpointID = 5,
                 GetName = ''one'', PrivateData = [''token''] \<rparr>"

definition ex_rule2 :: NotificationRule where
  "ex_rule2 = \<lparr> GetID = 2, GetOrgID = 7, GetTaskID = 20, GetEndpointID = 5,
                 GetName = ''two'', PrivateData = [] \<rparr>"

definition ex_rule3 :: NotificationRule where
  "ex_rule3 = \<lparr> GetID = 3, GetOrgID = 7, GetTaskID = 10, GetEndpointID = 5,
                 GetName = ''three'', PrivateData = [''key''] \<rparr>"

definition ex_decoded :: NotificationRule where
  "ex_decoded = \<lparr> GetID = 0, GetOrgID = 7, GetTaskID = 0, GetEndpointID = 5,
                   GetName = ''new'', PrivateData = [''secret''] \<rparr>"

definition ex_label1 :: Label where
  "ex_label1 = \<lparr> label_ID = 1, label_Name = ''aaa'' \<rparr>"

definition ex_task :: Task where
  "ex_task = \<lparr> task_Status = ''active'', task_LatestCompleted = 100, task_LatestScheduled = 200,
                task_LastRunStatus = ''success'', task_LastRunError = [] \<rparr>"

definition ex_opts :: FindOptions where
  "ex_opts = \<lparr> fo_Limit = 20, fo_Offset = 0, fo_SortBy = [], fo_Descending = False \<rparr>"

definition ex_x :: Ext where
  "ex_x = \<lparr>
     DecodeFromString = (\<lambda>str.
       if str = ''0000000000000001'' then Inr 1
       else if str = ''0000000000000009'' then Inr 9
       else Inl (Error EInvalid ''invalid ID'' [] None)),
     ID_String = (\<lambda>i. if i = 1 then ''0000000000000001'' else ''0000000000000003''),
     decodeFindOptions = (\<lambda>r. Inr ex_opts),
     NewTag = (\<lambda>str. Inl (Error EInvalid ''invalid tag'' [] None)),
     newPagingLinks = (\<lambda>p opts f n. PagingLinks [] p []),
     rule_UnmarshalJSON = (\<lambda>b.
       if b = ''{rule}'' \<or> b = ''{rule, status, labels}'' then Inr ex_decoded
       else Inl (GoError ''unexpected end of JSON input'')),
     Unmarshal_statusDecode = (\<lambda>b.
       if b = ''{rule, status, labels}'' then Inr (Some ''active'') else Inr None),
     Unmarshal_decodeLabels = (\<lambda>b.
       if b = ''{rule, status, labels}''
       then Inr [''0000000000000001'', ''zz'', ''0000000000000009'', ''0000000000000001'']
       else Inr []),
     Decode_NotificationRuleUpdate = (\<lambda>b.
       Inr \<lparr> upd_Name = Some ''renamed'', upd_Description = None, upd_Status = None \<rparr>),
     Valid = (\<lambda>u. None),
     Error_string = (\<lambda>e. ''error''),
     GenerateFlux = (\<lambda>nr e. Inr ''flux''),
     json_Marshal_rule = (\<lambda>nr. Inr ''{name}''),
     json_Marshal_fields = (\<lambda>t. Inr ''{labels}''),
     json_Marshal_PagingLinks = (\<lambda>l. Inr ''{self}'') \<rparr>"

definition ex_h :: "(LabelMapping list) NotificationRuleHandler" where
  "ex_h = \<lparr>
     FindNotificationRuleByID = (\<lambda>i w.
       (if i = 1 then Inr ex_rule1 else Inl (Error ENotFound ''notification rule not found'' [] None), w)),
     FindNotificationRules = (\<lambda>f opts w. (Inr ([ex_rule1, ex_rule2, ex_rule3], 3), w)),
     CreateNotificationRule = (\<lambda>nrc u w.
       (Inr ((nrc_NotificationRule nrc)\<lparr>GetID := 3, GetTaskID := 10\<rparr>), w)),
     UpdateNotificationRule = (\<lambda>i nrc u w. (Inr ex_rule3, w)),
     PatchNotificationRule = (\<lambda>i upd w. (Inr ex_rule3, w)),
     DeleteNotificationRule = (\<lambda>i w. (None, w)),
     FindNotificationEndpointByID = (\<lambda>i w. (Inr (NotificationEndpoint i ''slack''), w)),
     FindResourceLabels = (\<lambda>i w.
       (if i = 1 then Inl (Error EInternal ''label store unavailable'' [] None) else Inr [ex_label1], w)),
     FindLabelByID = (\<lambda>i w.
       (if i = 1 then Inr ex_label1 else Inl (Error ENotFound ''label not found'' [] None), w)),
     CreateLabelMapping = (\<lambda>m w.
       if m \<in> set w then (Some (Error EConflict ''mapping exists'' [] None), w) else (None, w @ [m])),
     FindTaskByID = (\<lambda>i w.
       (if i = 10 then Inr ex_task else Inl (Error ENotFound ''task not found'' [] None), w)) \<rparr>"

definition ex_request :: Request where
  "ex_request = \<lparr> req_Params = [(''id'', ''0000000000000001'')], req_Query = (\<lambda>k. []),
                   req_Body = Inr ''{rule, status, labels}'', req_Authorizer = Inr (Authorizer 42) \<rparr>"

definition ex_filter :: NotificationRuleFilter where
  "ex_filter =
    \<lparr> f_OrgID = None, f_Organization = None, f_Tags = [],
      f_UserResourceMappingFilter =
        \<lparr> urm_ResourceID = 0, urm_ResourceType = NotificationRuleResourceType, urm_UserID = 0 \<rparr> \<rparr>"

definition ex_s :: "(LabelMapping list) St" where
  "ex_s = ([], [])"


definition ex_links :: "string \<Rightarrow> notificationRuleLinks" where
  "ex_links sid =
    \<lparr> links_Self = ''/api/v2/notificationRules/'' @ sid,
      links_Labels = ''/api/v2/notificationRules/'' @ sid @ ''/labels'',
      links_Members = ''/api/v2/notificationRules/'' @ sid @ ''/members'',
      links_Owners = ''/api/v2/notificationRules/'' @ sid @ ''/owners'',
      links_Query = ''/api/v2/notificationRules/'' @ sid @ ''/query'' \<rparr>"

definition ex_item :: "NotificationRule \<Rightarrow> Label list \<Rightarrow> string \<Rightarrow> notificationRuleResponse" where
  "ex_item nr labels sid =
    \<lparr> resp_NotificationRule = nr\<lparr>PrivateData := []\<rparr>,
      resp_Labels = labels,
      resp_Links = ex_links sid,
      resp_Status = ''active'',
      resp_LatestCompleted = 100,
      resp_LatestScheduled = 200,
      resp_LastRunStatus = ''success'',
      resp_LastRunError = [] \<rparr>"

definition ex_calls :: "Call list" where
  "ex_calls =
    [(LabelService, ''FindResourceLabels'', ArgID 1), (TaskService, ''FindTaskByID'', ArgID 10),
     (LabelService, ''FindResourceLabels'', ArgID 2), (TaskService, ''FindTaskByID'', ArgID 20),
     (LabelService, ''FindResourceLabels'', ArgID 3), (TaskService, ''FindTaskByID'', ArgID 10)]"

definition ex_created :: NotificationRule where
  "ex_created = ex_decoded\<lparr>GetID := 3, GetTaskID := 10\<rparr>"

definition ex_mapping :: LabelMapping where
  "ex_mapping = \<lparr> lm_LabelID = 1, lm_ResourceID = 3, lm_ResourceType = NotificationRuleResourceType \<rparr>"

definition ex_create_calls :: "Call list" where
  "ex_create_calls =
    [(NotificationRuleStore, ''CreateNotificationRule'', NoArg),
     (LabelService, ''FindLabelByID'', ArgID 1),
     (LabelService, ''CreateLabelMapping'', ArgMapping ex_mapping),
     (LabelService, ''FindLabelByID'', ArgID 9),
     (LabelService, ''FindLabelByID'', ArgID 1),
     (LabelService, ''CreateLabelMapping'', ArgMapping ex_mapping),
     (TaskService, ''FindTaskByID'', ArgID 10)]"

definition ex_post_request :: postNotificationRuleRequest where
  "ex_post_request =
    \<lparr> pnrr_NotificationRuleCreate = \<lparr> nrc_NotificationRule = ex_decoded, nrc_Status = ''active'' \<rparr>,
      pnrr_Labels = [''0000000000000001'', ''zz'', ''0000000000000009'', ''0000000000000001''] \<rparr>"

definition ex_bad_id_request :: Request where
  "ex_bad_id_request = ex_request\<lparr>req_Params := [(''id'', ''xyz'')], req_Body := Inr ''{rule}''\<rparr>"

definition ex_org_request :: Request where
  "ex_org_request = ex_request\<lparr>req_Query := (\<lambda>k. if k = ''org'' then [''myorg''] else [])\<rparr>"

definition ex_list_response :: notificationRulesResponse where
  "ex_list_response =
    \<lparr> resps_NotificationRules =
        [ex_item ex_rule1 [] ''0000000000000001'',
         ex_item ex_rule3 [ex_label1] ''0000000000000003''],
      resps_Links = PagingLinks [] ''/api/v2/notificationRules'' [] \<rparr>"

definition ex_list_json :: json where
  "ex_list_json =
    JObject [(''notificationRules'', JArray [JRaw ''{name, labels}'', JRaw ''{name, labels}'']),
             (''links'', JRaw ''{self}'')]"

definition ex_unauthorized :: error where
  "ex_unauthorized = Error EUnauthorized ''authorizer not found on context'' [] None"

definition ex_no_status_request :: Request where
  "ex_no_status_request = ex_request\<lparr>req_Body := Inr ''{rule}''\<rparr>"

definition ex_anonymous_request :: Request where
  "ex_anonymous_request = ex_request\<lparr>req_Authorizer := Inl ex_unauthorized\<rparr>"

section \<open>Properties\<close>

text \<open>The definitions of the example, and of the model, for evaluation by the simplifier.\<close>

lemmas example_defs =
  ex_rule1_def ex_rule2_def ex_rule3_def ex_decoded_def ex_label1_def ex_task_def ex_opts_def
  ex_x_def ex_h_def ex_request_def ex_s_def ex_links_def ex_item_def ex_calls_def ex_filter_def
  ex_created_def ex_mapping_def ex_create_calls_def ex_post_request_def

lemmas model_defs =
  invoke_def newNotificationRuleResponse_def newNotificationRulesResponse_def
  ClearPrivateData_def SetID_def ByName_def Get_def GetAuthorizer_def IDFromString_def
  prefixNotificationRules_def StatusOK_def StatusCreated_def StatusNoContent_def
  decodeGetNotificationRuleRequest_def decodeUserResourceMappingFilter_def
  decodeNotificationRuleFilter_def decodePostNotificationRuleRequest_def
  decodePutNotificationRuleRequest_def decodePatchNotificationRuleRequest_def
  mapNewNotificationRuleLabels_def
  handleGetNotificationRules_def handleGetNotificationRuleQuery_def handleGetNotificationRule_def
  handlePostNotificationRule_def handlePutNotificationRule_def handlePatchNotificationRule_def
  handleDeleteNotificationRule_def

subsection \<open>The client-side store's stubs\<close>

text \<open>
  Claim C7. For every input, the client-side store's list operation returns the empty
  rule list, the count zero and no error; its replace and patch operations return the
  nil rule and no error; its delete operation returns no error. Each of the four leaves
  the adapter's state as it was: the remote side is untouched and no request is added
  to the requests sent.
\<close>

theorem remote_store_stubs_return_zero_values:
  "Service_FindNotificationRules cl fltr opt s = (([], 0, None), s)
   \<and> Service_UpdateNotificationRule cl i nrc userID s = ((None, None), s)
   \<and> Service_PatchNotificationRule cl i upd s = ((None, None), s)
   \<and> Service_DeleteNotificationRule cl i s = (None, s)"
  by (simp add: Service_FindNotificationRules_def Service_UpdateNotificationRule_def
      Service_PatchNotificationRule_def Service_DeleteNotificationRule_def)

subsection \<open>Composition of responses\<close>

lemma newNotificationRuleResponse_Inl:
  "invoke (TaskService, ''FindTaskByID'', ArgID (GetTaskID nr)) (FindTaskByID h (GetTaskID nr)) s = (Inl e, s1)
   \<Longrightarrow> newNotificationRuleResponse x h nr labels s = (Inl e, s1)"
  by (simp add: newNotificationRuleResponse_def)

lemma newNotificationRuleResponse_Inr:
  "invoke (TaskService, ''FindTaskByID'', ArgID (GetTaskID nr)) (FindTaskByID h (GetTaskID nr)) s = (Inr t, s1)
   \<Longrightarrow> \<exists>res. newNotificationRuleResponse x h nr labels s = (Inr res, s1)
         \<and> resp_NotificationRule res = ClearPrivateData nr
         \<and> resp_Labels res = labels
         \<and> resp_Status res = task_Status t
         \<and> resp_LatestCompleted res = task_LatestCompleted t
         \<and> resp_LatestScheduled res = task_LatestScheduled t
         \<and> resp_LastRunStatus res = task_LastRunStatus t
         \<and> resp_LastRunError res = task_LastRunError t"
  by (simp add: newNotificationRuleResponse_def Let_def)

lemma newNotificationRuleResponse_rule:
  "newNotificationRuleResponse x h nr labels s = (Inr res, s1)
   \<Longrightarrow> resp_NotificationRule res = ClearPrivateData nr \<and> resp_Labels res = labels"
  by (auto simp add: newNotificationRuleResponse_def Let_def split: prod.splits sum.splits)

lemma rules_loop_acc:
  "newNotificationRulesResponse_loop x h nrs acc s =
     (acc @ fst (newNotificationRulesResponse_loop x h nrs [] s),
      snd (newNotificationRulesResponse_loop x h nrs [] s))"
proof (induction nrs arbitrary: acc s)
  case Nil
  show ?case by simp
next
  case (Cons nr nrs)
  obtain lr s1 where l: "invoke (LabelService, ''FindResourceLabels'', ArgID (GetID nr))
      (FindResourceLabels h (GetID nr)) s = (lr, s1)"
    by (cases "invoke (LabelService, ''FindResourceLabels'', ArgID (GetID nr))
      (FindResourceLabels h (GetID nr)) s")
  obtain rr s2 where r: "newNotificationRuleResponse x h nr (case lr of Inl err \<Rightarrow> [] | Inr ls \<Rightarrow> ls) s1 = (rr, s2)"
    by (cases "newNotificationRuleResponse x h nr (case lr of Inl err \<Rightarrow> [] | Inr ls \<Rightarrow> ls) s1")
  show ?case
  proof (cases rr)
    case (Inl e)
    with l r show ?thesis using Cons.IH[of acc s2] by simp
  next
    case (Inr res)
    with l r show ?thesis using Cons.IH[of "acc @ [res]" s2] Cons.IH[of "[res]" s2] by simp
  qed
qed

lemma rules_loop_Cons:
  assumes "invoke (LabelService, ''FindResourceLabels'', ArgID (GetID nr)) (FindResourceLabels h (GetID nr)) s = (lr, s1)"
    and "newNotificationRuleResponse x h nr (case lr of Inl err \<Rightarrow> [] | Inr ls \<Rightarrow> ls) s1 = (rr, s2)"
    and "newNotificationRulesResponse_loop x h nrs [] s2 = (items, s3)"
  shows "newNotificationRulesResponse_loop x h (nr # nrs) [] s =
           ((case rr of Inl e \<Rightarrow> [] | Inr res \<Rightarrow> [res]) @ items, s3)"
proof (cases rr)
  case (Inl e)
  with assms show ?thesis by simp
next
  case (Inr res)
  with assms show ?thesis using rules_loop_acc[of x h nrs "[res]" s2] by simp
qed

lemma rules_loop_append:
  assumes "newNotificationRulesResponse_loop x h pre [] s = (items1, s1)"
    and "newNotificationRulesResponse_loop x h post [] s1 = (items2, s2)"
  shows "newNotificationRulesResponse_loop x h (pre @ post) [] s = (items1 @ items2, s2)"
  using assms
proof (induction pre arbitrary: s items1)
  case Nil
  then show ?case by simp
next
  case (Cons nr pre)
  obtain lr sa where l: "invoke (LabelService, ''FindResourceLabels'', ArgID (GetID nr))
      (FindResourceLabels h (GetID nr)) s = (lr, sa)"
    by (cases "invoke (LabelService, ''FindResourceLabels'', ArgID (GetID nr))
      (FindResourceLabels h (GetID nr)) s")
  obtain rr sb where r: "newNotificationRuleResponse x h nr (case lr of Inl err \<Rightarrow> [] | Inr ls \<Rightarrow> ls) sa = (rr, sb)"
    by (cases "newNotificationRuleResponse x h nr (case lr of Inl err \<Rightarrow> [] | Inr ls \<Rightarrow> ls) sa")
  obtain its sc where p: "newNotificationRulesResponse_loop x h pre [] sb = (its, sc)"
    by (cases "newNotificationRulesResponse_loop x h pre [] sb")
  have a: "newNotificationRulesResponse_loop x h (nr # pre) [] s =
           ((case rr of Inl e \<Rightarrow> [] | Inr res \<Rightarrow> [res]) @ its, sc)"
    by (rule rules_loop_Cons[OF l r p])
  with Cons.prems(1) have e: "items1 = (case rr of Inl e \<Rightarrow> [] | Inr res \<Rightarrow> [res]) @ its" and sc: "sc = s1"
    by simp_all
  have "newNotificationRulesResponse_loop x h (pre @ post) [] sb = (its @ items2, s2)"
    using Cons.IH[of sb its] p Cons.prems(2) sc by simp
  then have "newNotificationRulesResponse_loop x h (nr # (pre @ post)) [] s =
           ((case rr of Inl e \<Rightarrow> [] | Inr res \<Rightarrow> [res]) @ (its @ items2), s2)"
    by (rule rules_loop_Cons[OF l r])
  with e show ?case by simp
qed

lemma rules_loop_subseq:
  "subseq (map resp_NotificationRule (fst (newNotificationRulesResponse_loop x h nrs [] s)))
          (map ClearPrivateData nrs)"
proof (induction nrs arbitrary: s)
  case Nil
  show ?case by simp
next
  case (Cons nr nrs)
  obtain lr sa where l: "invoke (LabelService, ''FindResourceLabels'', ArgID (GetID nr))
      (FindResourceLabels h (GetID nr)) s = (lr, sa)"
    by (cases "invoke (LabelService, ''FindResourceLabels'', ArgID (GetID nr))
      (FindResourceLabels h (GetID nr)) s")
  obtain rr sb where r: "newNotificationRuleResponse x h nr (case lr of Inl err \<Rightarrow> [] | Inr ls \<Rightarrow> ls) sa = (rr, sb)"
    by (cases "newNotificationRuleResponse x h nr (case lr of Inl err \<Rightarrow> [] | Inr ls \<Rightarrow> ls) sa")
  obtain its sc where p: "newNotificationRulesResponse_loop x h nrs [] sb = (its, sc)"
    by (cases "newNotificationRulesResponse_loop x h nrs [] sb")
  have a: "newNotificationRulesResponse_loop x h (nr # nrs) [] s =
           ((case rr of Inl e \<Rightarrow> [] | Inr res \<Rightarrow> [res]) @ its, sc)"
    by (rule rules_loop_Cons[OF l r p])
  have ih: "subseq (map resp_NotificationRule its) (map ClearPrivateData nrs)"
    using Cons.IH[of sb] p by simp
  show ?case
  proof (cases rr)
    case (Inl e)
    have "subseq (map resp_NotificationRule its) (ClearPrivateData nr # map ClearPrivateData nrs)"
      using ih by (rule list_emb_Cons)
    with Inl show ?thesis unfolding a by simp
  next
    case (Inr res)
    with r have "resp_NotificationRule res = ClearPrivateData nr"
      using newNotificationRuleResponse_rule by blast
    with ih have "subseq (map resp_NotificationRule (res # its))
                         (ClearPrivateData nr # map ClearPrivateData nrs)"
      by simp
    with Inr show ?thesis unfolding a by simp
  qed
qed

lemma rules_loop_length:
  "length (fst (newNotificationRulesResponse_loop x h nrs [] s)) \<le> length nrs"
proof -
  have "length (map resp_NotificationRule (fst (newNotificationRulesResponse_loop x h nrs [] s)))
          \<le> length (map ClearPrivateData nrs)"
    by (rule list_emb_length[OF rules_loop_subseq])
  then show ?thesis by simp
qed

text \<open>
  Claim C1. Composing a list response never fails, and it degrades per item. For every
  list of rules the store returned: the result is a response, never an error; its
  items, read as rules, are a subsequence of the cleared input rules (the store's order
  is kept), so there are at most as many items as rules. At every position of the list
  (the rules \<open>pre\<close> before it, the rule \<open>nr\<close>, the rules \<open>post\<close> after it): the
  task of \<open>nr\<close> is looked up right after its labels whether the label lookup failed or
  not; when the task lookup fails, \<open>nr\<close> contributes no item and the items of the
  other rules are unchanged; when it succeeds, \<open>nr\<close> contributes one item that carries
  the task's status fields and, as labels, the fetched labels or none when the label
  lookup failed.
\<close>

theorem list_response_degrades_per_item:
  "(\<exists>items s'.
      newNotificationRulesResponse x h nrs f opts s =
        (Inr \<lparr> resps_NotificationRules = items,
               resps_Links = newPagingLinks x prefixNotificationRules opts f (length nrs) \<rparr>, s')
      \<and> subseq (map resp_NotificationRule items) (map ClearPrivateData nrs)
      \<and> length items \<le> length nrs)
   \<and> (nrs = pre @ nr # post
        \<and> newNotificationRulesResponse_loop x h pre [] s = (items1, s1)
        \<and> invoke (LabelService, ''FindResourceLabels'', ArgID (GetID nr))
              (FindResourceLabels h (GetID nr)) s1 = (lr, s2)
        \<and> invoke (TaskService, ''FindTaskByID'', ArgID (GetTaskID nr))
              (FindTaskByID h (GetTaskID nr)) s2 = (tr, s3)
        \<and> newNotificationRulesResponse_loop x h post [] s3 = (items2, s4)
      \<longrightarrow> (\<exists>mid.
            newNotificationRulesResponse x h nrs f opts s =
              (Inr \<lparr> resps_NotificationRules = items1 @ mid @ items2,
                     resps_Links = newPagingLinks x prefixNotificationRules opts f (length nrs) \<rparr>, s4)
            \<and> (case tr of
                  Inl e \<Rightarrow> mid = []
                | Inr t \<Rightarrow>
                    (\<exists>res. mid = [res]
                       \<and> resp_NotificationRule res = ClearPrivateData nr
                       \<and> resp_Labels res = (case lr of Inl e \<Rightarrow> [] | Inr ls \<Rightarrow> ls)
                       \<and> resp_Status res = task_Status t
                       \<and> resp_LatestCompleted res = task_LatestCompleted t
                       \<and> resp_LatestScheduled res = task_LatestScheduled t
                       \<and> resp_LastRunStatus res = task_LastRunStatus t
                       \<and> resp_LastRunError res = task_LastRunError t))))"
proof (intro conjI impI)
  obtain items s' where p: "newNotificationRulesResponse_loop x h nrs [] s = (items, s')"
    by (cases "newNotificationRulesResponse_loop x h nrs [] s")
  have "subseq (map resp_NotificationRule items) (map ClearPrivateData nrs)"
    using rules_loop_subseq[of x h nrs s] p by simp
  moreover have "length items \<le> length nrs"
    using rules_loop_length[of x h nrs s] p by simp
  ultimately show "\<exists>items s'.
      newNotificationRulesResponse x h nrs f opts s =
        (Inr \<lparr> resps_NotificationRules = items,
               resps_Links = newPagingLinks x prefixNotificationRules opts f (length nrs) \<rparr>, s')
      \<and> subseq (map resp_NotificationRule items) (map ClearPrivateData nrs)
      \<and> length items \<le> length nrs"
    using p by (simp add: newNotificationRulesResponse_def)
next
  assume a: "nrs = pre @ nr # post
        \<and> newNotificationRulesResponse_loop x h pre [] s = (items1, s1)
        \<and> invoke (LabelService, ''FindResourceLabels'', ArgID (GetID nr))
              (FindResourceLabels h (GetID nr)) s1 = (lr, s2)
        \<and> invoke (TaskService, ''FindTaskByID'', ArgID (GetTaskID nr))
              (FindTaskByID h (GetTaskID nr)) s2 = (tr, s3)
        \<and> newNotificationRulesResponse_loop x h post [] s3 = (items2, s4)"
  let ?labels = "case lr of Inl e \<Rightarrow> [] | Inr ls \<Rightarrow> ls"
  from a have nrs: "nrs = pre @ nr # post"
    and pre: "newNotificationRulesResponse_loop x h pre [] s = (items1, s1)"
    and l: "invoke (LabelService, ''FindResourceLabels'', ArgID (GetID nr))
              (FindResourceLabels h (GetID nr)) s1 = (lr, s2)"
    and t: "invoke (TaskService, ''FindTaskByID'', ArgID (GetTaskID nr))
              (FindTaskByID h (GetTaskID nr)) s2 = (tr, s3)"
    and post: "newNotificationRulesResponse_loop x h post [] s3 = (items2, s4)"
    by simp_all
  have "\<exists>rr. newNotificationRuleResponse x h nr ?labels s2 = (rr, s3)
          \<and> (case tr of
                Inl e \<Rightarrow> rr = Inl e
              | Inr t \<Rightarrow>
                  (\<exists>res. rr = Inr res
                     \<and> resp_NotificationRule res = ClearPrivateData nr
                     \<and> resp_Labels res = ?labels
                     \<and> resp_Status res = task_Status t
                     \<and> resp_LatestCompleted res = task_LatestCompleted t
                     \<and> resp_LatestScheduled res = task_LatestScheduled t
                     \<and> resp_LastRunStatus res = task_LastRunStatus t
                     \<and> resp_LastRunError res = task_LastRunError t))"
  proof (cases tr)
    case (Inl e)
    with t show ?thesis using newNotificationRuleResponse_Inl[of nr h s2 e s3 x ?labels] by simp
  next
    case (Inr tk)
    with t show ?thesis using newNotificationRuleResponse_Inr[of nr h s2 tk s3 x ?labels] by auto
  qed
  then obtain rr where r: "newNotificationRuleResponse x h nr ?labels s2 = (rr, s3)"
    and rr: "case tr of
                Inl e \<Rightarrow> rr = Inl e
              | Inr t \<Rightarrow>
                  (\<exists>res. rr = Inr res
                     \<and> resp_NotificationRule res = ClearPrivateData nr
                     \<and> resp_Labels res = ?labels
                     \<and> resp_Status res = task_Status t
                     \<and> resp_LatestCompleted res = task_LatestCompleted t
                     \<and> resp_LatestScheduled res = task_LatestScheduled t
                     \<and> resp_LastRunStatus res = task_LastRunStatus t
                     \<and> resp_LastRunError res = task_LastRunError t)"
    by blast
  let ?mid = "case rr of Inl e \<Rightarrow> [] | Inr res \<Rightarrow> [res]"
  have "newNotificationRulesResponse_loop x h (nr # post) [] s1 = (?mid @ items2, s4)"
    by (rule rules_loop_Cons[OF l r post])
  with pre have "newNotificationRulesResponse_loop x h (pre @ nr # post) [] s = (items1 @ ?mid @ items2, s4)"
    by (rule rules_loop_append)
  then have whole: "newNotificationRulesResponse x h nrs f opts s =
              (Inr \<lparr> resps_NotificationRules = items1 @ ?mid @ items2,
                     resps_Links = newPagingLinks x prefixNotificationRules opts f (length nrs) \<rparr>, s4)"
    using nrs by (simp add: newNotificationRulesResponse_def)
  have "case tr of
          Inl e \<Rightarrow> ?mid = []
        | Inr t \<Rightarrow>
            (\<exists>res. ?mid = [res]
               \<and> resp_NotificationRule res = ClearPrivateData nr
               \<and> resp_Labels res = ?labels
               \<and> resp_Status res = task_Status t
               \<and> resp_LatestCompleted res = task_LatestCompleted t
               \<and> resp_LatestScheduled res = task_LatestScheduled t
               \<and> resp_LastRunStatus res = task_LastRunStatus t
               \<and> resp_LastRunError res = task_LastRunError t)"
    using rr by (cases tr) auto
  with whole show "\<exists>mid.
            newNotificationRulesResponse x h nrs f opts s =
              (Inr \<lparr> resps_NotificationRules = items1 @ mid @ items2,
                     resps_Links = newPagingLinks x prefixNotificationRules opts f (length nrs) \<rparr>, s4)
            \<and> (case tr of
                  Inl e \<Rightarrow> mid = []
                | Inr t \<Rightarrow>
                    (\<exists>res. mid = [res]
                       \<and> resp_NotificationRule res = ClearPrivateData nr
                       \<and> resp_Labels res = (case lr of Inl e \<Rightarrow> [] | Inr ls \<Rightarrow> ls)
                       \<and> resp_Status res = task_Status t
                       \<and> resp_LatestCompleted res = task_LatestCompleted t
                       \<and> resp_LatestScheduled res = task_LatestScheduled t
                       \<and> resp_LastRunStatus res = task_LastRunStatus t
                       \<and> resp_LastRunError res = task_LastRunError t))"
    by blast
qed

text \<open>Claim C1 in the example: the label lookup of rule 1 fails and its task is found, the task of rule 2 is missing, rule 3 has both. Rule 1 is listed with no labels, rule 2 is absent, rule 3 follows.\<close>

theorem list_response_degrades_per_item_witness:
  "newNotificationRulesResponse_loop ex_x ex_h [] [] ex_s = ([], ex_s)
   \<and> invoke (LabelService, ''FindResourceLabels'', ArgID (GetID ex_rule1))
         (FindResourceLabels ex_h (GetID ex_rule1)) ex_s
       = (Inl (Error EInternal ''label store unavailable'' [] None), ([], take 1 ex_calls))
   \<and> invoke (TaskService, ''FindTaskByID'', ArgID (GetTaskID ex_rule1))
         (FindTaskByID ex_h (GetTaskID ex_rule1)) ([], take 1 ex_calls)
       = (Inr ex_task, ([], take 2 ex_calls))
   \<and> newNotificationRulesResponse_loop ex_x ex_h [ex_rule2, ex_rule3] [] ([], take 2 ex_calls)
       = ([ex_item ex_rule3 [ex_label1] ''0000000000000003''], ([], ex_calls))
   \<and> newNotificationRulesResponse ex_x ex_h [ex_rule1, ex_rule2, ex_rule3] ex_filter ex_opts ex_s
       = (Inr \<lparr> resps_NotificationRules =
                  [ex_item ex_rule1 [] ''0000000000000001'',
                   ex_item ex_rule3 [ex_label1] ''0000000000000003''],
                resps_Links = PagingLinks [] ''/api/v2/notificationRules'' [] \<rparr>, ([], ex_calls))"
proof -
  have pre: "newNotificationRulesResponse_loop ex_x ex_h [] [] ex_s = ([], ex_s)"
    by simp
  have l: "invoke (LabelService, ''FindResourceLabels'', ArgID (GetID ex_rule1))
         (FindResourceLabels ex_h (GetID ex_rule1)) ex_s
       = (Inl (Error EInternal ''label store unavailable'' [] None), ([], take 1 ex_calls))"
    by (simp add: example_defs invoke_def)
  have t: "invoke (TaskService, ''FindTaskByID'', ArgID (GetTaskID ex_rule1))
         (FindTaskByID ex_h (GetTaskID ex_rule1)) ([], take 1 ex_calls)
       = (Inr ex_task, ([], take 2 ex_calls))"
    by (simp add: example_defs invoke_def)
  have post: "newNotificationRulesResponse_loop ex_x ex_h [ex_rule2, ex_rule3] [] ([], take 2 ex_calls)
       = ([ex_item ex_rule3 [ex_label1] ''0000000000000003''], ([], ex_calls))"
    by (simp add: example_defs model_defs)
  have "\<exists>mid. newNotificationRulesResponse ex_x ex_h ([] @ ex_rule1 # [ex_rule2, ex_rule3]) ex_filter ex_opts ex_s =
              (Inr \<lparr> resps_NotificationRules = [] @ mid @ [ex_item ex_rule3 [ex_label1] ''0000000000000003''],
                     resps_Links = newPagingLinks ex_x prefixNotificationRules ex_opts ex_filter
                        (length ([] @ ex_rule1 # [ex_rule2, ex_rule3])) \<rparr>, ([], ex_calls))
            \<and> (case (Inr ex_task :: error + Task) of
                  Inl e \<Rightarrow> mid = []
                | Inr t \<Rightarrow>
                    (\<exists>res. mid = [res]
                       \<and> resp_NotificationRule res = ClearPrivateData ex_rule1
                       \<and> resp_Labels res = (case (Inl (Error EInternal ''label store unavailable'' [] None) :: error + Label list) of Inl e \<Rightarrow> [] | Inr ls \<Rightarrow> ls)
                       \<and> resp_Status res = task_Status t
                       \<and> resp_LatestCompleted res = task_LatestCompleted t
                       \<and> resp_LatestScheduled res = task_LatestScheduled t
                       \<and> resp_LastRunStatus res = task_LastRunStatus t
                       \<and> resp_LastRunError res = task_LastRunError t))"
    using list_response_degrades_per_item[of ex_x ex_h "[] @ ex_rule1 # [ex_rule2, ex_rule3]"
        ex_filter ex_opts ex_s "[]" ex_rule1 "[ex_rule2, ex_rule3]" "[]" ex_s
        "Inl (Error EInternal ''label store unavailable'' [] None)" "([], take 1 ex_calls)"
        "Inr ex_task" "([], take 2 ex_calls)" "[ex_item ex_rule3 [ex_label1] ''0000000000000003'']"
        "([], ex_calls)"] pre l t post
    by blast
  then have whole: "newNotificationRulesResponse ex_x ex_h [ex_rule1, ex_rule2, ex_rule3] ex_filter ex_opts ex_s
       = (Inr \<lparr> resps_NotificationRules =
                  [ex_item ex_rule1 [] ''0000000000000001'',
                   ex_item ex_rule3 [ex_label1] ''0000000000000003''],
                resps_Links = PagingLinks [] ''/api/v2/notificationRules'' [] \<rparr>, ([], ex_calls))"
    by (simp add: example_defs model_defs)
  from pre l t post whole show ?thesis by blast
qed

subsection \<open>Label attachment on create\<close>

lemma attach_loop:
  "mapNewNotificationRuleLabels_loop x h nrc cands ls s =
     (ls @ attached (fst (attachLabels_outcomes x h (GetID (nrc_NotificationRule nrc)) cands s)),
      snd (attachLabels_outcomes x h (GetID (nrc_NotificationRule nrc)) cands s))"
proof (induction cands arbitrary: ls s)
  case Nil
  show ?case by (simp add: attached_def)
next
  case (Cons sid cands)
  show ?case
    by (simp add: Cons.IH attachLabels_candidate_def attached_def Let_def
        split: sum.splits prod.splits option.splits)
qed

lemma attached_length: "length (attached outs) = length (filter (\<lambda>out. out \<noteq> None) outs)"
  by (induction outs) (auto simp: attached_def split: option.splits)

lemma outcomes_length:
  "length (fst (attachLabels_outcomes x h rid cands s)) = length cands"
proof (induction cands arbitrary: s)
  case Nil
  show ?case by simp
next
  case (Cons sid cands)
  obtain out s1 where c: "attachLabels_candidate x h rid sid s = (out, s1)"
    by (cases "attachLabels_candidate x h rid sid s")
  obtain outs s2 where r: "attachLabels_outcomes x h rid cands s1 = (outs, s2)"
    by (cases "attachLabels_outcomes x h rid cands s1")
  from Cons.IH[of s1] r have "length outs = length cands" by simp
  with c r show ?case by simp
qed

text \<open>
  Claim C2. Label attachment on create returns exactly the labels of the candidates
  whose three steps succeed. For N candidate strings the run has N outcomes; the
  operation returns the labels of the K successful ones, in order, whatever the other
  N - K failures are and wherever they stand: it has no failing result. And the create
  response carries them: when the body decodes, the principal is present, the store
  creates the rule and the task of the created rule is found, the handler answers 201
  with a document whose labels are exactly those K labels.
\<close>

theorem create_attaches_exactly_the_resolvable_labels:
  "(\<exists>outs s'.
      attachLabels_outcomes x h (GetID (nrc_NotificationRule nrc)) cands s = (outs, s')
      \<and> length outs = length cands
      \<and> mapNewNotificationRuleLabels x h nrc cands s = (attached outs, s')
      \<and> length (attached outs) = length (filter (\<lambda>out. out \<noteq> None) outs))
   \<and> (decodePostNotificationRuleRequest x r = Ok req
        \<and> GetAuthorizer r = Inr auth
        \<and> invoke (NotificationRuleStore, ''CreateNotificationRule'', NoArg)
              (CreateNotificationRule h (pnrr_NotificationRuleCreate req) (GetUserID auth)) s0
             = (Inr created, s1)
        \<and> attachLabels_outcomes x h (GetID created) (pnrr_Labels req) s1 = (outs1, s2)
        \<and> invoke (TaskService, ''FindTaskByID'', ArgID (GetTaskID created))
              (FindTaskByID h (GetTaskID created)) s2 = (Inr t, s3)
      \<longrightarrow> (\<exists>res.
            handlePostNotificationRule x h r s0 = (encodeResponse StatusCreated (RuleBody res), s3)
            \<and> resp_Labels res = attached outs1
            \<and> length (resp_Labels res) = length (filter (\<lambda>out. out \<noteq> None) outs1)))"
proof (intro conjI impI)
  obtain outs s' where o: "attachLabels_outcomes x h (GetID (nrc_NotificationRule nrc)) cands s = (outs, s')"
    by (cases "attachLabels_outcomes x h (GetID (nrc_NotificationRule nrc)) cands s")
  have "length outs = length cands"
    using outcomes_length[of x h "GetID (nrc_NotificationRule nrc)" cands s] o by simp
  moreover have "mapNewNotificationRuleLabels x h nrc cands s = (attached outs, s')"
    using attach_loop[of x h nrc cands "[]" s] o by (simp add: mapNewNotificationRuleLabels_def)
  ultimately show "\<exists>outs s'.
      attachLabels_outcomes x h (GetID (nrc_NotificationRule nrc)) cands s = (outs, s')
      \<and> length outs = length cands
      \<and> mapNewNotificationRuleLabels x h nrc cands s = (attached outs, s')
      \<and> length (attached outs) = length (filter (\<lambda>out. out \<noteq> None) outs)"
    using o attached_length by blast
next
  assume a: "decodePostNotificationRuleRequest x r = Ok req
        \<and> GetAuthorizer r = Inr auth
        \<and> invoke (NotificationRuleStore, ''CreateNotificationRule'', NoArg)
              (CreateNotificationRule h (pnrr_NotificationRuleCreate req) (GetUserID auth)) s0
             = (Inr created, s1)
        \<and> attachLabels_outcomes x h (GetID created) (pnrr_Labels req) s1 = (outs1, s2)
        \<and> invoke (TaskService, ''FindTaskByID'', ArgID (GetTaskID created))
              (FindTaskByID h (GetTaskID created)) s2 = (Inr t, s3)"
  let ?nrc = "(pnrr_NotificationRuleCreate req)\<lparr>nrc_NotificationRule := created\<rparr>"
  have m: "mapNewNotificationRuleLabels x h ?nrc (pnrr_Labels req) s1 = (attached outs1, s2)"
    using attach_loop[of x h ?nrc "pnrr_Labels req" "[]" s1] a
    by (simp add: mapNewNotificationRuleLabels_def)
  from a have "invoke (TaskService, ''FindTaskByID'', ArgID (GetTaskID created))
              (FindTaskByID h (GetTaskID created)) s2 = (Inr t, s3)"
    by simp
  then obtain res where r: "newNotificationRuleResponse x h created (attached outs1) s2 = (Inr res, s3)"
    and l: "resp_Labels res = attached outs1"
    using newNotificationRuleResponse_Inr[of created h s2 t s3 x "attached outs1"] by blast
  have "handlePostNotificationRule x h r s0 = (encodeResponse StatusCreated (RuleBody res), s3)"
    using a m r by (simp add: handlePostNotificationRule_def Let_def)
  with l show "\<exists>res.
            handlePostNotificationRule x h r s0 = (encodeResponse StatusCreated (RuleBody res), s3)
            \<and> resp_Labels res = attached outs1
            \<and> length (resp_Labels res) = length (filter (\<lambda>out. out \<noteq> None) outs1)"
    using attached_length by auto
qed

text \<open>Claim C2 in the example: of the four candidates the first attaches label 1; the second does not decode, the third names no label, and the mapping of the fourth exists already. The response carries the one label.\<close>

theorem create_attaches_exactly_the_resolvable_labels_witness:
  "decodePostNotificationRuleRequest ex_x ex_request = Ok ex_post_request
   \<and> GetAuthorizer ex_request = Inr (Authorizer 42)
   \<and> invoke (NotificationRuleStore, ''CreateNotificationRule'', NoArg)
         (CreateNotificationRule ex_h (pnrr_NotificationRuleCreate ex_post_request)
            (GetUserID (Authorizer 42))) ex_s
       = (Inr ex_created, ([], take 1 ex_create_calls))
   \<and> attachLabels_outcomes ex_x ex_h (GetID ex_created) (pnrr_Labels ex_post_request)
         ([], take 1 ex_create_calls)
       = ([Some ex_label1, None, None, None], ([ex_mapping], take 6 ex_create_calls))
   \<and> invoke (TaskService, ''FindTaskByID'', ArgID (GetTaskID ex_created))
         (FindTaskByID ex_h (GetTaskID ex_created)) ([ex_mapping], take 6 ex_create_calls)
       = (Inr ex_task, ([ex_mapping], ex_create_calls))
   \<and> (\<exists>res. handlePostNotificationRule ex_x ex_h ex_request ex_s
                = (encodeResponse StatusCreated (RuleBody res), ([ex_mapping], ex_create_calls))
            \<and> resp_Labels res = [ex_label1]
            \<and> length (resp_Labels res) = 1)"
proof -
  have d: "decodePostNotificationRuleRequest ex_x ex_request = Ok ex_post_request"
    by (simp add: example_defs decodePostNotificationRuleRequest_def)
  have a: "GetAuthorizer ex_request = Inr (Authorizer 42)"
    by (simp add: example_defs GetAuthorizer_def)
  have c: "invoke (NotificationRuleStore, ''CreateNotificationRule'', NoArg)
         (CreateNotificationRule ex_h (pnrr_NotificationRuleCreate ex_post_request)
            (GetUserID (Authorizer 42))) ex_s
       = (Inr ex_created, ([], take 1 ex_create_calls))"
    by (simp add: example_defs invoke_def)
  have o: "attachLabels_outcomes ex_x ex_h (GetID ex_created) (pnrr_Labels ex_post_request)
         ([], take 1 ex_create_calls)
       = ([Some ex_label1, None, None, None], ([ex_mapping], take 6 ex_create_calls))"
    by (simp add: example_defs invoke_def attachLabels_candidate_def)
  have t: "invoke (TaskService, ''FindTaskByID'', ArgID (GetTaskID ex_created))
         (FindTaskByID ex_h (GetTaskID ex_created)) ([ex_mapping], take 6 ex_create_calls)
       = (Inr ex_task, ([ex_mapping], ex_create_calls))"
    by (simp add: example_defs invoke_def)
  have "\<exists>res. handlePostNotificationRule ex_x ex_h ex_request ex_s
                = (encodeResponse StatusCreated (RuleBody res), ([ex_mapping], ex_create_calls))
            \<and> resp_Labels res = attached [Some ex_label1, None, None, None]
            \<and> length (resp_Labels res)
                = length (filter (\<lambda>out. out \<noteq> None) [Some ex_label1, None, None, None])"
    using create_attaches_exactly_the_resolvable_labels[of ex_x ex_h _ _ _ ex_request
        ex_post_request "Authorizer 42" ex_s ex_created "([], take 1 ex_create_calls)"
        "[Some ex_label1, None, None, None]" "([ex_mapping], take 6 ex_create_calls)"
        ex_task "([ex_mapping], ex_create_calls)"] d a c o t
    by blast
  then have "\<exists>res. handlePostNotificationRule ex_x ex_h ex_request ex_s
                = (encodeResponse StatusCreated (RuleBody res), ([ex_mapping], ex_create_calls))
            \<and> resp_Labels res = [ex_label1]
            \<and> length (resp_Labels res) = 1"
    by (simp add: attached_def)
  with d a c o t show ?thesis by blast
qed

subsection \<open>Private data\<close>

lemma newNotificationRuleResponse_private:
  "newNotificationRuleResponse x h (nr\<lparr>PrivateData := p\<rparr>) labels s
     = newNotificationRuleResponse x h nr labels s"
proof -
  have eq: "ClearPrivateData (nr\<lparr>PrivateData := p\<rparr>) = ClearPrivateData nr"
    by (simp add: ClearPrivateData_def)
  show ?thesis
    unfolding newNotificationRuleResponse_def eq by simp
qed

lemma ClearPrivateData_private: "PrivateData (ClearPrivateData nr) = []"
  by (simp add: ClearPrivateData_def)

lemma handlePost_body:
  "handlePostNotificationRule x h r s = (encodeResponse c (RuleBody res), s')
   \<Longrightarrow> \<exists>nr labels s1. newNotificationRuleResponse x h nr labels s1 = (Inr res, s')"
  by (auto simp add: handlePostNotificationRule_def Let_def
      split: Result.splits sum.splits prod.splits)

lemma handleGet_body:
  "handleGetNotificationRule x h r s = (encodeResponse c (RuleBody res), s')
   \<Longrightarrow> \<exists>nr labels s1. newNotificationRuleResponse x h nr labels s1 = (Inr res, s')"
  by (auto simp add: handleGetNotificationRule_def Let_def
      split: Result.splits sum.splits prod.splits)

lemma handlePut_body:
  "handlePutNotificationRule x h r s = (encodeResponse c (RuleBody res), s')
   \<Longrightarrow> \<exists>nr labels s1. newNotificationRuleResponse x h nr labels s1 = (Inr res, s')"
  by (auto simp add: handlePutNotificationRule_def Let_def
      split: Result.splits sum.splits prod.splits)

lemma handlePatch_body:
  "handlePatchNotificationRule x h r s = (encodeResponse c (RuleBody res), s')
   \<Longrightarrow> \<exists>nr labels s1. newNotificationRuleResponse x h nr labels s1 = (Inr res, s')"
  by (auto simp add: handlePatchNotificationRule_def Let_def
      split: Result.splits sum.splits prod.splits)

text \<open>
  Claim C3. The composer of a single-item response embeds the cleared rule: every
  response it returns holds \<open>ClearPrivateData nr\<close>, whose private data is empty, and
  the whole result is the same whatever the private data of the input rule is, so the
  value handed to the encoder (and hence its encoding) does not depend on it. Every
  document the create, get, replace and patch handlers hand to the encoder holds a rule
  with no private data.
\<close>

theorem single_item_response_has_no_private_data:
  "(newNotificationRuleResponse x h nr labels s = (Inr res, s')
      \<longrightarrow> resp_NotificationRule res = ClearPrivateData nr
          \<and> PrivateData (resp_NotificationRule res) = [])
   \<and> newNotificationRuleResponse x h (nr\<lparr>PrivateData := p\<rparr>) labels s
        = newNotificationRuleResponse x h nr labels s
   \<and> (handlePostNotificationRule x h r s = (encodeResponse c (RuleBody res), s')
        \<or> handleGetNotificationRule x h r s = (encodeResponse c (RuleBody res), s')
        \<or> handlePutNotificationRule x h r s = (encodeResponse c (RuleBody res), s')
        \<or> handlePatchNotificationRule x h r s = (encodeResponse c (RuleBody res), s')
      \<longrightarrow> PrivateData (resp_NotificationRule res) = [])"
proof (intro conjI impI)
  assume "newNotificationRuleResponse x h nr labels s = (Inr res, s')"
  then show "resp_NotificationRule res = ClearPrivateData nr"
    using newNotificationRuleResponse_rule by blast
  then show "PrivateData (resp_NotificationRule res) = []"
    by (simp add: ClearPrivateData_private)
next
  show "newNotificationRuleResponse x h (nr\<lparr>PrivateData := p\<rparr>) labels s
        = newNotificationRuleResponse x h nr labels s"
    by (rule newNotificationRuleResponse_private)
next
  assume "handlePostNotificationRule x h r s = (encodeResponse c (RuleBody res), s')
        \<or> handleGetNotificationRule x h r s = (encodeResponse c (RuleBody res), s')
        \<or> handlePutNotificationRule x h r s = (encodeResponse c (RuleBody res), s')
        \<or> handlePatchNotificationRule x h r s = (encodeResponse c (RuleBody res), s')"
  then have "\<exists>nr' labels' s1. newNotificationRuleResponse x h nr' labels' s1 = (Inr res, s')"
  proof (elim disjE)
    assume "handlePostNotificationRule x h r s = (encodeResponse c (RuleBody res), s')"
    then show ?thesis by (rule handlePost_body)
  next
    assume "handleGetNotificationRule x h r s = (encodeResponse c (RuleBody res), s')"
    then show ?thesis by (rule handleGet_body)
  next
    assume "handlePutNotificationRule x h r s = (encodeResponse c (RuleBody res), s')"
    then show ?thesis by (rule handlePut_body)
  next
    assume "handlePatchNotificationRule x h r s = (encodeResponse c (RuleBody res), s')"
    then show ?thesis by (rule handlePatch_body)
  qed
  then obtain nr' labels' s1 where "newNotificationRuleResponse x h nr' labels' s1 = (Inr res, s')"
    by blast
  then have "resp_NotificationRule res = ClearPrivateData nr'"
    using newNotificationRuleResponse_rule by blast
  then show "PrivateData (resp_NotificationRule res) = []"
    by (simp add: ClearPrivateData_private)
qed

text \<open>Claim C3 in the example: rule 3 and the decoded rule of the create request carry private data; the composed documents carry none.\<close>

theorem single_item_response_has_no_private_data_witness:
  "PrivateData ex_rule3 = [''key'']
   \<and> newNotificationRuleResponse ex_x ex_h ex_rule3 [ex_label1] ex_s
       = (Inr (ex_item ex_rule3 [ex_label1] ''0000000000000003''),
          ([], [(TaskService, ''FindTaskByID'', ArgID 10)]))
   \<and> PrivateData (resp_NotificationRule (ex_item ex_rule3 [ex_label1] ''0000000000000003'')) = []
   \<and> newNotificationRuleResponse ex_x ex_h (ex_rule3\<lparr>PrivateData := [''other key'']\<rparr>) [ex_label1] ex_s
       = newNotificationRuleResponse ex_x ex_h ex_rule3 [ex_label1] ex_s
   \<and> PrivateData ex_decoded = [''secret'']
   \<and> handlePostNotificationRule ex_x ex_h ex_request ex_s
       = (encodeResponse StatusCreated (RuleBody (ex_item ex_created [ex_label1] ''0000000000000003'')),
          ([ex_mapping], ex_create_calls))
   \<and> PrivateData (resp_NotificationRule (ex_item ex_created [ex_label1] ''0000000000000003'')) = []"
proof -
  let ?res = "ex_item ex_rule3 [ex_label1] ''0000000000000003''"
  let ?s' = "([] :: LabelMapping list, [(TaskService, ''FindTaskByID'', ArgID 10)])"
  let ?res2 = "ex_item ex_created [ex_label1] ''0000000000000003''"
  have p: "PrivateData ex_rule3 = [''key'']" "PrivateData ex_decoded = [''secret'']"
    by (simp_all add: example_defs)
  have n: "newNotificationRuleResponse ex_x ex_h ex_rule3 [ex_label1] ex_s = (Inr ?res, ?s')"
    by (simp add: example_defs model_defs)
  have hp: "handlePostNotificationRule ex_x ex_h ex_request ex_s
       = (encodeResponse StatusCreated (RuleBody ?res2), ([ex_mapping], ex_create_calls))"
    by (simp add: example_defs model_defs Let_def)
  have c1: "PrivateData (resp_NotificationRule ?res) = []"
    using single_item_response_has_no_private_data[of ex_x ex_h ex_rule3 "[ex_label1]" ex_s ?res ?s']
      n by blast
  have c2: "newNotificationRuleResponse ex_x ex_h (ex_rule3\<lparr>PrivateData := [''other key'']\<rparr>) [ex_label1] ex_s
       = newNotificationRuleResponse ex_x ex_h ex_rule3 [ex_label1] ex_s"
    using single_item_response_has_no_private_data[of ex_x ex_h ex_rule3 "[ex_label1]" ex_s ?res ?s'
        "[''other key'']"]
    by blast
  have c3: "PrivateData (resp_NotificationRule ?res2) = []"
    using single_item_response_has_no_private_data[of ex_x ex_h _ _ ex_s ?res2
        "([ex_mapping], ex_create_calls)" _ ex_request StatusCreated] hp
    by blast
  from p n c1 c2 hp c3 show ?thesis by blast
qed

subsection \<open>Path identifiers\<close>

lemma has_code_EInvalid_not_ENotFound: "has_code EInvalid e \<Longrightarrow> \<not> has_code ENotFound e"
  by (cases e) auto

lemma decodeGet_bad_id:
  assumes "\<forall>str e. DecodeFromString x str = Inl e \<longrightarrow> has_code EInvalid e"
    and "ByName (req_Params r) ''id'' = [] \<or> isl (DecodeFromString x (ByName (req_Params r) ''id''))"
  shows "\<exists>e. decodeGetNotificationRuleRequest x r = Err e \<and> has_code EInvalid e"
  using assms
  by (auto simp add: decodeGetNotificationRuleRequest_def Let_def isl_def split: sum.splits)

lemma decodePatch_bad_id:
  assumes "\<forall>str e. DecodeFromString x str = Inl e \<longrightarrow> has_code EInvalid e"
    and "ByName (req_Params r) ''id'' = [] \<or> isl (DecodeFromString x (ByName (req_Params r) ''id''))"
  shows "\<exists>e. decodePatchNotificationRuleRequest x r = Err e \<and> has_code EInvalid e"
  using assms
  by (auto simp add: decodePatchNotificationRuleRequest_def Let_def isl_def split: sum.splits)

lemma decodePut_bad_id:
  assumes "\<forall>str e. DecodeFromString x str = Inl e \<longrightarrow> has_code EInvalid e"
    and "ByName (req_Params r) ''id'' = [] \<or> isl (DecodeFromString x (ByName (req_Params r) ''id''))"
  shows "\<exists>e. decodePutNotificationRuleRequest x r = Err e \<and> has_code EInvalid e"
  using assms
  by (auto simp add: decodePutNotificationRuleRequest_def Let_def isl_def split: sum.splits)

text \<open>
  Claim C4. When the path identifier is missing or does not decode, the get, replace,
  patch, delete and query handlers each answer with an error whose code is
  invalid-argument, not not-found, and leave the state as it was: the world is
  untouched and no call of a collaborator is recorded. The error of a failed decoding
  is the one \<open>DecodeFromString\<close> returns, a method of another file; the spec's
  taxonomy makes a malformed identifier an invalid-argument error, which is the first
  hypothesis.
\<close>

theorem bad_path_id_is_invalid_argument_without_store_call:
  assumes "\<forall>str e. DecodeFromString x str = Inl e \<longrightarrow> has_code EInvalid e"
    and "ByName (req_Params r) ''id'' = [] \<or> isl (DecodeFromString x (ByName (req_Params r) ''id''))"
  shows "(\<exists>e. handleGetNotificationRule x h r s = (HandleHTTPError e, s)
              \<and> has_code EInvalid e \<and> \<not> has_code ENotFound e)
       \<and> (\<exists>e. handlePutNotificationRule x h r s = (HandleHTTPError e, s)
              \<and> has_code EInvalid e \<and> \<not> has_code ENotFound e)
       \<and> (\<exists>e. handlePatchNotificationRule x h r s = (HandleHTTPError e, s)
              \<and> has_code EInvalid e \<and> \<not> has_code ENotFound e)
       \<and> (\<exists>e. handleDeleteNotificationRule x h r s = (HandleHTTPError e, s)
              \<and> has_code EInvalid e \<and> \<not> has_code ENotFound e)
       \<and> (\<exists>e. handleGetNotificationRuleQuery x h r s = (HandleHTTPError e, s)
              \<and> has_code EInvalid e \<and> \<not> has_code ENotFound e)"
proof -
  obtain e1 where g: "decodeGetNotificationRuleRequest x r = Err e1" and c1: "has_code EInvalid e1"
    using decodeGet_bad_id[OF assms] by blast
  obtain e2 where u: "decodePutNotificationRuleRequest x r = Err e2" and c2: "has_code EInvalid e2"
    using decodePut_bad_id[OF assms] by blast
  obtain e3 where p: "decodePatchNotificationRuleRequest x r = Err e3" and c3: "has_code EInvalid e3"
    using decodePatch_bad_id[OF assms] by blast
  have n1: "\<not> has_code ENotFound e1" using c1 by (rule has_code_EInvalid_not_ENotFound)
  have n2: "\<not> has_code ENotFound e2" using c2 by (rule has_code_EInvalid_not_ENotFound)
  have n3: "\<not> has_code ENotFound e3" using c3 by (rule has_code_EInvalid_not_ENotFound)
  have "handleGetNotificationRule x h r s = (HandleHTTPError e1, s)"
    using g by (simp add: handleGetNotificationRule_def)
  moreover have "handlePutNotificationRule x h r s = (HandleHTTPError e2, s)"
    using u by (simp add: handlePutNotificationRule_def)
  moreover have "handlePatchNotificationRule x h r s = (HandleHTTPError e3, s)"
    using p by (simp add: handlePatchNotificationRule_def)
  moreover have "handleDeleteNotificationRule x h r s = (HandleHTTPError e1, s)"
    using g by (simp add: handleDeleteNotificationRule_def)
  moreover have "handleGetNotificationRuleQuery x h r s = (HandleHTTPError e1, s)"
    using g by (simp add: handleGetNotificationRuleQuery_def)
  ultimately show ?thesis
    using c1 c2 c3 n1 n2 n3 by blast
qed

lemma ex_x_decoder_contract:
  "\<forall>str e. DecodeFromString ex_x str = Inl e \<longrightarrow> has_code EInvalid e"
  by (auto simp add: ex_x_def split: if_splits)

text \<open>Claim C4 in the example: the path identifier \<open>xyz\<close> does not decode.\<close>

theorem bad_path_id_is_invalid_argument_without_store_call_witness:
  "ByName (req_Params ex_bad_id_request) ''id'' = ''xyz''
   \<and> DecodeFromString ex_x ''xyz'' = Inl (Error EInvalid ''invalid ID'' [] None)
   \<and> handleGetNotificationRule ex_x ex_h ex_bad_id_request ex_s
       = (HandleHTTPError (Error EInvalid ''invalid ID'' [] None), ex_s)
   \<and> (\<exists>e. handlePutNotificationRule ex_x ex_h ex_bad_id_request ex_s = (HandleHTTPError e, ex_s)
          \<and> has_code EInvalid e \<and> \<not> has_code ENotFound e)
   \<and> (\<exists>e. handlePatchNotificationRule ex_x ex_h ex_bad_id_request ex_s = (HandleHTTPError e, ex_s)
          \<and> has_code EInvalid e \<and> \<not> has_code ENotFound e)
   \<and> (\<exists>e. handleDeleteNotificationRule ex_x ex_h ex_bad_id_request ex_s = (HandleHTTPError e, ex_s)
          \<and> has_code EInvalid e \<and> \<not> has_code ENotFound e)
   \<and> (\<exists>e. handleGetNotificationRuleQuery ex_x ex_h ex_bad_id_request ex_s = (HandleHTTPError e, ex_s)
          \<and> has_code EInvalid e \<and> \<not> has_code ENotFound e)"
proof -
  have b: "ByName (req_Params ex_bad_id_request) ''id'' = ''xyz''"
    by (simp add: ex_bad_id_request_def ByName_def)
  have d: "DecodeFromString ex_x ''xyz'' = Inl (Error EInvalid ''invalid ID'' [] None)"
    by (simp add: ex_x_def)
  have bad: "ByName (req_Params ex_bad_id_request) ''id'' = []
      \<or> isl (DecodeFromString ex_x (ByName (req_Params ex_bad_id_request) ''id''))"
    using b d by simp
  have g: "handleGetNotificationRule ex_x ex_h ex_bad_id_request ex_s
       = (HandleHTTPError (Error EInvalid ''invalid ID'' [] None), ex_s)"
    using b d by (simp add: handleGetNotificationRule_def decodeGetNotificationRuleRequest_def)
  show ?thesis
    using bad_path_id_is_invalid_argument_without_store_call[OF ex_x_decoder_contract bad, of ex_h ex_s]
      b d g
    by blast
qed

subsection \<open>The organization name selector\<close>

lemma org_name_selector_panics:
  assumes "decodeFindOptions x r = Inr opts"
    and "Get (req_Query r) ''orgID'' = []"
    and "Get (req_Query r) ''org'' \<noteq> []"
  shows "decodeNotificationRuleFilter x r = Panicked"
  using assms
  by (simp add: decodeNotificationRuleFilter_def Let_def split: sum.splits)

text \<open>
  Claim C5. The claim says that a list request with an \<open>org\<close> parameter and no
  \<open>orgID\<close> binds the name as the filter's selector and completes. The code writes
  the name through \<open>f.Organization\<close>, a pointer that is nil in the fresh filter: once
  the paging options decode, the decoder panics on every such request, and so does the
  list handler, before any call of the store. Here at the request \<open>?org=myorg\<close>.
\<close>

theorem org_name_filter_request_panics:
  "Get (req_Query ex_org_request) ''orgID'' = []
   \<and> Get (req_Query ex_org_request) ''org'' = ''myorg''
   \<and> decodeFindOptions ex_x ex_org_request = Inr ex_opts
   \<and> decodeNotificationRuleFilter ex_x ex_org_request = Panicked
   \<and> handleGetNotificationRules ex_x ex_h ex_org_request ex_s = (Panic, ex_s)"
proof -
  have a: "Get (req_Query ex_org_request) ''orgID'' = []"
    and b: "Get (req_Query ex_org_request) ''org'' = ''myorg''"
    and c: "decodeFindOptions ex_x ex_org_request = Inr ex_opts"
    by (simp_all add: ex_org_request_def ex_x_def Get_def)
  have "decodeNotificationRuleFilter ex_x ex_org_request = Panicked"
    using c a b by (intro org_name_selector_panics) simp_all
  then show ?thesis
    using a b c by (simp add: handleGetNotificationRules_def)
qed

subsection \<open>The resource type of label mappings\<close>

text \<open>
  The mappings that label attachment on create asks the label service to create all
  have the notification rule resource type.
\<close>

lemma attach_mappings_resource_type:
  "(svc, name, ArgMapping m) \<in> set (snd (snd (mapNewNotificationRuleLabels_loop x h nrc cands ls s)))
   \<Longrightarrow> (svc, name, ArgMapping m) \<in> set (snd s) \<or> lm_ResourceType m = NotificationRuleResourceType"
proof (induction cands arbitrary: ls s)
  case Nil
  then show ?case by simp
next
  case (Cons sid cands)
  show ?case
  proof (cases "DecodeFromString x sid")
    case (Inl e)
    with Cons.prems show ?thesis using Cons.IH[of ls s] by simp
  next
    case (Inr lid)
    obtain fr s1 where f: "invoke (LabelService, ''FindLabelByID'', ArgID lid) (FindLabelByID h lid) s = (fr, s1)"
      by (cases "invoke (LabelService, ''FindLabelByID'', ArgID lid) (FindLabelByID h lid) s")
    then have s1: "snd s1 = snd s @ [(LabelService, ''FindLabelByID'', ArgID lid)]"
      by (auto simp add: invoke_def split: prod.splits)
    show ?thesis
    proof (cases fr)
      case (Inl e)
      with Cons.prems Inr f have "(svc, name, ArgMapping m) \<in> set (snd s1)
          \<or> lm_ResourceType m = NotificationRuleResourceType"
        using Cons.IH[of ls s1] by simp
      with s1 show ?thesis by auto
    next
      case lab: (Inr label)
      let ?mapping = "\<lparr> lm_LabelID = label_ID label,
                         lm_ResourceID = GetID (nrc_NotificationRule nrc),
                         lm_ResourceType = NotificationRuleResourceType \<rparr>"
      obtain cr s2 where c: "invoke (LabelService, ''CreateLabelMapping'', ArgMapping ?mapping)
                       (CreateLabelMapping h ?mapping) s1 = (cr, s2)"
        by (cases "invoke (LabelService, ''CreateLabelMapping'', ArgMapping ?mapping)
                       (CreateLabelMapping h ?mapping) s1")
      then have s2: "snd s2 = snd s1 @ [(LabelService, ''CreateLabelMapping'', ArgMapping ?mapping)]"
        by (auto simp add: invoke_def split: prod.splits)
      have "(svc, name, ArgMapping m) \<in> set (snd s2)
          \<or> lm_ResourceType m = NotificationRuleResourceType"
      proof (cases cr)
        case None
        with Cons.prems Inr f lab c show ?thesis
          using Cons.IH[of "ls @ [label]" s2] by (simp add: Let_def)
      next
        case (Some e)
        with Cons.prems Inr f lab c show ?thesis
          using Cons.IH[of ls s2] by (simp add: Let_def)
      qed
      with s1 s2 show ?thesis by auto
    qed
  qed
qed

text \<open>
  Claim C6. The claim says that every label mapping of a rule has the notification rule
  resource type, also through the label routes. The label routes are registered with a
  label backend whose resource type is the telegrafs one, while the member and owner
  backends beside it carry the notification rule type.
\<close>

theorem label_routes_are_typed_telegrafs:
  "route ''POST'' notificationRulesIDLabelsPath
     = Some (newPostLabelHandler \<lparr> lb_ResourceType = TelegrafsResourceType \<rparr>)
   \<and> route ''POST'' notificationRulesIDMembersPath
     = Some (newPostMemberHandler
               \<lparr> mb_ResourceType = NotificationRuleResourceType, mb_UserType = Member \<rparr>)
   \<and> TelegrafsResourceType \<noteq> NotificationRuleResourceType"
  by (simp add: route_def NewNotificationRuleHandler_def prefixNotificationRules_def
      notificationRulesIDPath_def notificationRulesIDQueryPath_def
      notificationRulesIDMembersPath_def notificationRulesIDMembersIDPath_def
      notificationRulesIDOwnersPath_def notificationRulesIDOwnersIDPath_def
      notificationRulesIDLabelsPath_def notificationRulesIDLabelsIDPath_def Let_def)

subsection \<open>The encoded list response\<close>

lemma marshal_items_length:
  "marshal_items x rs = Ok js \<Longrightarrow> length js = length rs"
  by (induction rs arbitrary: js) (auto split: Result.splits)

text \<open>
  Claim C8, amended. Every encoded list response is an object of exactly two members,
  in this order: \<open>notificationRules\<close>, an array with one element per item of the
  response, and \<open>links\<close>. (The claim names the array \<open>items\<close>; the struct's tag is
  \<open>notificationRules\<close>.)
\<close>

theorem list_response_members_are_notificationRules_and_links:
  "marshal_notificationRulesResponse x res = Ok j
   \<longrightarrow> (\<exists>items links.
          j = JObject [(''notificationRules'', JArray items), (''links'', JRaw links)]
        \<and> length items = length (resps_NotificationRules res)
        \<and> member_names j = [''notificationRules'', ''links''])"
  by (auto simp add: marshal_notificationRulesResponse_def marshal_items_length
      split: Result.splits sum.splits)

text \<open>Claim C8, amended, in the example: the list of the three stored rules.\<close>

theorem list_response_members_are_notificationRules_and_links_witness:
  "marshal_notificationRulesResponse ex_x ex_list_response = Ok ex_list_json
   \<and> member_names ex_list_json = [''notificationRules'', ''links'']
   \<and> length (resps_NotificationRules ex_list_response) = 2"
proof -
  have m: "marshal_notificationRulesResponse ex_x ex_list_response = Ok ex_list_json"
    by (simp add: example_defs MarshalJSON_def marshal_notificationRulesResponse_def
        ex_list_response_def ex_list_json_def)
  have "member_names ex_list_json = [''notificationRules'', ''links'']"
    using list_response_members_are_notificationRules_and_links[of ex_x ex_list_response ex_list_json] m
    by blast
  moreover have "length (resps_NotificationRules ex_list_response) = 2"
    by (simp add: ex_list_response_def)
  ultimately show ?thesis using m by blast
qed

text \<open>Claim C8 as stated fails there: the successful list request is encoded with no member named \<open>items\<close>.\<close>

theorem list_response_has_no_items_member:
  "handleGetNotificationRules ex_x ex_h ex_request ex_s
     = (encodeResponse StatusOK (RulesBody ex_list_response),
        ([], (NotificationRuleStore, ''FindNotificationRules'', NoArg) # ex_calls))
   \<and> marshal_notificationRulesResponse ex_x ex_list_response = Ok ex_list_json
   \<and> ''items'' \<notin> set (member_names ex_list_json)"
  by (simp add: example_defs model_defs MarshalJSON_def marshal_notificationRulesResponse_def
      ex_list_response_def ex_list_json_def Let_def)

subsection \<open>A body without status\<close>

lemma decodePost_Panicked_iff:
  "decodePostNotificationRuleRequest x r = Panicked \<longleftrightarrow>
     (\<exists>buf nr dl. req_Body r = Inr buf
        \<and> rule_UnmarshalJSON x buf = Inr nr
        \<and> Unmarshal_statusDecode x buf = Inr None
        \<and> Unmarshal_decodeLabels x buf = Inr dl)"
  by (auto simp add: decodePostNotificationRuleRequest_def split: sum.splits option.splits)

lemma decodePut_Panicked_iff:
  "decodePutNotificationRuleRequest x r = Panicked \<longleftrightarrow>
     (\<exists>buf nr i. req_Body r = Inr buf
        \<and> rule_UnmarshalJSON x buf = Inr nr
        \<and> ByName (req_Params r) ''id'' \<noteq> []
        \<and> DecodeFromString x (ByName (req_Params r) ''id'') = Inr i
        \<and> Unmarshal_statusDecode x buf = Inr None)"
  by (auto simp add: decodePutNotificationRuleRequest_def Let_def split: sum.splits option.splits)

text \<open>
  Claim C9, amended. The create decoder panics on the nil status exactly when the body
  reads, parses as a rule, has no status (or a null one) and its labels decode; when
  the labels do not decode it returns their decoding error instead. The replace decoder
  panics exactly when the body reads, parses as a rule, the path identifier is present
  and decodes, and the body has no status; when the identifier is missing or does not
  decode it returns the invalid-argument error "url missing id" or the identifier's
  decoding error instead. Where the decoder panics, so does the handler, before any
  call of a collaborator.
\<close>

theorem missing_status_panics_once_the_rest_decodes:
  "(decodePostNotificationRuleRequest x r = Panicked \<longleftrightarrow>
     (\<exists>buf nr dl. req_Body r = Inr buf
        \<and> rule_UnmarshalJSON x buf = Inr nr
        \<and> Unmarshal_statusDecode x buf = Inr None
        \<and> Unmarshal_decodeLabels x buf = Inr dl))
   \<and> (decodePutNotificationRuleRequest x r = Panicked \<longleftrightarrow>
     (\<exists>buf nr i. req_Body r = Inr buf
        \<and> rule_UnmarshalJSON x buf = Inr nr
        \<and> ByName (req_Params r) ''id'' \<noteq> []
        \<and> DecodeFromString x (ByName (req_Params r) ''id'') = Inr i
        \<and> Unmarshal_statusDecode x buf = Inr None))
   \<and> (decodePostNotificationRuleRequest x r = Panicked
        \<longrightarrow> handlePostNotificationRule x h r s = (Panic, s))
   \<and> (decodePutNotificationRuleRequest x r = Panicked
        \<longrightarrow> handlePutNotificationRule x h r s = (Panic, s))
   \<and> (req_Body r = Inr buf
      \<and> rule_UnmarshalJSON x buf = Inr nr
      \<and> Unmarshal_statusDecode x buf = Inr None
      \<and> Unmarshal_decodeLabels x buf = Inl err
    \<longrightarrow> decodePostNotificationRuleRequest x r = Err err)
   \<and> (req_Body r = Inr buf
      \<and> rule_UnmarshalJSON x buf = Inr nr
      \<and> Unmarshal_statusDecode x buf = Inr None
      \<and> ByName (req_Params r) ''id'' \<noteq> []
      \<and> DecodeFromString x (ByName (req_Params r) ''id'') = Inl err
    \<longrightarrow> decodePutNotificationRuleRequest x r = Err err)
   \<and> (req_Body r = Inr buf
      \<and> rule_UnmarshalJSON x buf = Inr nr
      \<and> Unmarshal_statusDecode x buf = Inr None
      \<and> ByName (req_Params r) ''id'' = []
    \<longrightarrow> decodePutNotificationRuleRequest x r = Err (Error EInvalid ''url missing id'' [] None))"
proof (intro conjI)
  show "decodePostNotificationRuleRequest x r = Panicked \<longleftrightarrow>
     (\<exists>buf nr dl. req_Body r = Inr buf
        \<and> rule_UnmarshalJSON x buf = Inr nr
        \<and> Unmarshal_statusDecode x buf = Inr None
        \<and> Unmarshal_decodeLabels x buf = Inr dl)"
    by (rule decodePost_Panicked_iff)
  show "decodePutNotificationRuleRequest x r = Panicked \<longleftrightarrow>
     (\<exists>buf nr i. req_Body r = Inr buf
        \<and> rule_UnmarshalJSON x buf = Inr nr
        \<and> ByName (req_Params r) ''id'' \<noteq> []
        \<and> DecodeFromString x (ByName (req_Params r) ''id'') = Inr i
        \<and> Unmarshal_statusDecode x buf = Inr None)"
    by (rule decodePut_Panicked_iff)
  show "decodePostNotificationRuleRequest x r = Panicked
        \<longrightarrow> handlePostNotificationRule x h r s = (Panic, s)"
    by (simp add: handlePostNotificationRule_def)
  show "decodePutNotificationRuleRequest x r = Panicked
        \<longrightarrow> handlePutNotificationRule x h r s = (Panic, s)"
    by (simp add: handlePutNotificationRule_def)
  show "req_Body r = Inr buf
      \<and> rule_UnmarshalJSON x buf = Inr nr
      \<and> Unmarshal_statusDecode x buf = Inr None
      \<and> Unmarshal_decodeLabels x buf = Inl err
    \<longrightarrow> decodePostNotificationRuleRequest x r = Err err"
    by (simp add: decodePostNotificationRuleRequest_def)
  show "req_Body r = Inr buf
      \<and> rule_UnmarshalJSON x buf = Inr nr
      \<and> Unmarshal_statusDecode x buf = Inr None
      \<and> ByName (req_Params r) ''id'' \<noteq> []
      \<and> DecodeFromString x (ByName (req_Params r) ''id'') = Inl err
    \<longrightarrow> decodePutNotificationRuleRequest x r = Err err"
    by (simp add: decodePutNotificationRuleRequest_def Let_def)
  show "req_Body r = Inr buf
      \<and> rule_UnmarshalJSON x buf = Inr nr
      \<and> Unmarshal_statusDecode x buf = Inr None
      \<and> ByName (req_Params r) ''id'' = []
    \<longrightarrow> decodePutNotificationRuleRequest x r = Err (Error EInvalid ''url missing id'' [] None)"
    by (simp add: decodePutNotificationRuleRequest_def Let_def)
qed

text \<open>Claim C9, amended, in the example: the body \<open>{rule}\<close> has no status and no labels.\<close>

theorem missing_status_panics_once_the_rest_decodes_witness:
  "req_Body ex_no_status_request = Inr ''{rule}''
   \<and> rule_UnmarshalJSON ex_x ''{rule}'' = Inr ex_decoded
   \<and> Unmarshal_statusDecode ex_x ''{rule}'' = Inr None
   \<and> Unmarshal_decodeLabels ex_x ''{rule}'' = Inr []
   \<and> ByName (req_Params ex_no_status_request) ''id'' = ''0000000000000001''
   \<and> DecodeFromString ex_x ''0000000000000001'' = Inr 1
   \<and> decodePostNotificationRuleRequest ex_x ex_no_status_request = Panicked
   \<and> handlePostNotificationRule ex_x ex_h ex_no_status_request ex_s = (Panic, ex_s)
   \<and> decodePutNotificationRuleRequest ex_x ex_no_status_request = Panicked
   \<and> handlePutNotificationRule ex_x ex_h ex_no_status_request ex_s = (Panic, ex_s)
   \<and> ByName (req_Params ex_bad_id_request) ''id'' = ''xyz''
   \<and> DecodeFromString ex_x ''xyz'' = Inl (Error EInvalid ''invalid ID'' [] None)
   \<and> decodePutNotificationRuleRequest ex_x ex_bad_id_request
       = Err (Error EInvalid ''invalid ID'' [] None)"
proof -
  have b: "req_Body ex_no_status_request = Inr ''{rule}''"
    and u: "rule_UnmarshalJSON ex_x ''{rule}'' = Inr ex_decoded"
    and st: "Unmarshal_statusDecode ex_x ''{rule}'' = Inr None"
    and dl: "Unmarshal_decodeLabels ex_x ''{rule}'' = Inr []"
    and p: "ByName (req_Params ex_no_status_request) ''id'' = ''0000000000000001''"
    and d: "DecodeFromString ex_x ''0000000000000001'' = Inr 1"
    by (simp_all add: example_defs ex_no_status_request_def ByName_def)
  have b2: "req_Body ex_bad_id_request = Inr ''{rule}''"
    and p2: "ByName (req_Params ex_bad_id_request) ''id'' = ''xyz''"
    and d2: "DecodeFromString ex_x ''xyz'' = Inl (Error EInvalid ''invalid ID'' [] None)"
    by (simp_all add: example_defs ex_bad_id_request_def ByName_def)
  note t = missing_status_panics_once_the_rest_decodes[where r = ex_no_status_request
        and x = ex_x and h = ex_h and s = ex_s and buf = "''{rule}''" and nr = ex_decoded
        and err = ex_unauthorized]
  have post: "decodePostNotificationRuleRequest ex_x ex_no_status_request = Panicked"
    using t b u st dl by blast
  have put: "decodePutNotificationRuleRequest ex_x ex_no_status_request = Panicked"
    using t b u st p d by auto
  have hpost: "handlePostNotificationRule ex_x ex_h ex_no_status_request ex_s = (Panic, ex_s)"
    using t post by blast
  have hput: "handlePutNotificationRule ex_x ex_h ex_no_status_request ex_s = (Panic, ex_s)"
    using t put by blast
  have "decodePutNotificationRuleRequest ex_x ex_bad_id_request
       = Err (Error EInvalid ''invalid ID'' [] None)"
    using missing_status_panics_once_the_rest_decodes[where r = ex_bad_id_request
        and x = ex_x and h = ex_h and s = ex_s and buf = "''{rule}''" and nr = ex_decoded
        and err = "Error EInvalid ''invalid ID'' [] None"] b2 u st p2 d2
    by simp
  with b u st dl p d post put hpost hput p2 d2 show ?thesis by blast
qed

text \<open>Claim C9 as stated fails for replace: with the same body and the path identifier \<open>xyz\<close>, the decoder returns the invalid-argument error of the identifier and does not reach the status.\<close>

theorem replace_without_status_returns_the_id_error:
  "req_Body ex_bad_id_request = Inr ''{rule}''
   \<and> rule_UnmarshalJSON ex_x ''{rule}'' = Inr ex_decoded
   \<and> Unmarshal_statusDecode ex_x ''{rule}'' = Inr None
   \<and> decodePutNotificationRuleRequest ex_x ex_bad_id_request
       = Err (Error EInvalid ''invalid ID'' [] None)
   \<and> decodePutNotificationRuleRequest ex_x ex_bad_id_request \<noteq> Panicked"
  by (simp add: example_defs ex_bad_id_request_def decodePutNotificationRuleRequest_def ByName_def)

subsection \<open>The authenticated principal\<close>

lemma decodePatch_authorizer:
  "decodePatchNotificationRuleRequest x (r\<lparr>req_Authorizer := a\<rparr>)
     = decodePatchNotificationRuleRequest x r"
  unfolding decodePatchNotificationRuleRequest_def
  by (simp add: Let_def cong: if_cong sum.case_cong)

lemma decodeGet_authorizer:
  "decodeGetNotificationRuleRequest x (r\<lparr>req_Authorizer := a\<rparr>)
     = decodeGetNotificationRuleRequest x r"
  unfolding decodeGetNotificationRuleRequest_def
  by (simp add: Let_def cong: if_cong sum.case_cong)

text \<open>
  Claim C10. The patch and delete handlers (and get and query) do not read the
  authorizer of the request: what they do is the same whatever it is, so none of them
  answers with an error of the authorizer's lookup. The create and replace handlers
  need it before the store: when their body decodes and the lookup of the authorizer
  fails, they answer with that error and leave the state as it was, no call made.
\<close>

theorem only_create_and_replace_read_the_authorizer:
  "handlePatchNotificationRule x h (r\<lparr>req_Authorizer := a\<rparr>) s = handlePatchNotificationRule x h r s
   \<and> handleDeleteNotificationRule x h (r\<lparr>req_Authorizer := a\<rparr>) s = handleDeleteNotificationRule x h r s
   \<and> handleGetNotificationRule x h (r\<lparr>req_Authorizer := a\<rparr>) s = handleGetNotificationRule x h r s
   \<and> handleGetNotificationRuleQuery x h (r\<lparr>req_Authorizer := a\<rparr>) s
       = handleGetNotificationRuleQuery x h r s
   \<and> (decodePostNotificationRuleRequest x r = Ok req \<and> GetAuthorizer r = Inl e
        \<longrightarrow> handlePostNotificationRule x h r s = (HandleHTTPError e, s))
   \<and> (decodePutNotificationRuleRequest x r = Ok nrc \<and> GetAuthorizer r = Inl e
        \<longrightarrow> handlePutNotificationRule x h r s = (HandleHTTPError e, s))"
  by (simp add: handlePatchNotificationRule_def handleDeleteNotificationRule_def
      handleGetNotificationRule_def handleGetNotificationRuleQuery_def
      handlePostNotificationRule_def handlePutNotificationRule_def
      decodePatch_authorizer decodeGet_authorizer)

text \<open>Claim C10 in the example: the request without an authorizer.\<close>

theorem only_create_and_replace_read_the_authorizer_witness:
  "decodePostNotificationRuleRequest ex_x ex_anonymous_request = Ok ex_post_request
   \<and> decodePutNotificationRuleRequest ex_x ex_anonymous_request
       = Ok \<lparr> nrc_NotificationRule = ex_decoded\<lparr>GetID := 1\<rparr>, nrc_Status = ''active'' \<rparr>
   \<and> GetAuthorizer ex_anonymous_request = Inl ex_unauthorized
   \<and> handlePostNotificationRule ex_x ex_h ex_anonymous_request ex_s
       = (HandleHTTPError ex_unauthorized, ex_s)
   \<and> handlePutNotificationRule ex_x ex_h ex_anonymous_request ex_s
       = (HandleHTTPError ex_unauthorized, ex_s)
   \<and> handlePatchNotificationRule ex_x ex_h ex_anonymous_request ex_s
       = handlePatchNotificationRule ex_x ex_h ex_request ex_s
   \<and> handleDeleteNotificationRule ex_x ex_h ex_anonymous_request ex_s
       = (WriteHeader StatusNoContent,
          ([], [(NotificationRuleStore, ''DeleteNotificationRule'', ArgID 1)]))"
proof -
  have dp: "decodePostNotificationRuleRequest ex_x ex_anonymous_request = Ok ex_post_request"
    by (simp add: example_defs ex_anonymous_request_def decodePostNotificationRuleRequest_def)
  have du: "decodePutNotificationRuleRequest ex_x ex_anonymous_request
       = Ok \<lparr> nrc_NotificationRule = ex_decoded\<lparr>GetID := 1\<rparr>, nrc_Status = ''active'' \<rparr>"
    by (simp add: example_defs ex_anonymous_request_def decodePutNotificationRuleRequest_def
        ByName_def SetID_def)
  have a: "GetAuthorizer ex_anonymous_request = Inl ex_unauthorized"
    by (simp add: ex_anonymous_request_def GetAuthorizer_def)
  have del: "handleDeleteNotificationRule ex_x ex_h ex_request ex_s
       = (WriteHeader StatusNoContent,
          ([], [(NotificationRuleStore, ''DeleteNotificationRule'', ArgID 1)]))"
    by (simp add: example_defs model_defs)
  have ind: "handlePatchNotificationRule ex_x ex_h ex_anonymous_request ex_s
               = handlePatchNotificationRule ex_x ex_h ex_request ex_s
             \<and> handleDeleteNotificationRule ex_x ex_h ex_anonymous_request ex_s
               = handleDeleteNotificationRule ex_x ex_h ex_request ex_s"
    using only_create_and_replace_read_the_authorizer[where x = ex_x and h = ex_h
        and r = ex_request and a = "Inl ex_unauthorized" and s = ex_s]
    unfolding ex_anonymous_request_def by blast
  have req: "handlePostNotificationRule ex_x ex_h ex_anonymous_request ex_s
               = (HandleHTTPError ex_unauthorized, ex_s)
             \<and> handlePutNotificationRule ex_x ex_h ex_anonymous_request ex_s
               = (HandleHTTPError ex_unauthorized, ex_s)"
    using only_create_and_replace_read_the_authorizer[where x = ex_x and h = ex_h
        and r = ex_anonymous_request and s = ex_s and req = ex_post_request
        and e = ex_unauthorized
        and nrc = "\<lparr> nrc_NotificationRule = ex_decoded\<lparr>GetID := 1\<rparr>, nrc_Status = ''active'' \<rparr>"]
      dp du a
    by blast
  show ?thesis
    using ind req dp du a del by simp
qed

end
